theory Spec2Isabelle
  imports Complex_Main "HOL-Library.AList"
begin

section \<open>Python values\<close>

text \<open>
  The module \<^verbatim>\<open>src/models.py\<close> defines five dataclasses and their conversion to and
  from plain dictionaries (\<^verbatim>\<open>Dict[str, Any]\<close>). A dictionary value is a \<open>pyval\<close>; a
  dictionary is an association list in insertion order, read with \<open>map_of\<close> (the first
  binding of a key), and stands for a Python dict when its keys are distinct.

  A Python \<^verbatim>\<open>float\<close> is a real number or one of the three special values. The code
  only stores and compares floats; a decimal literal of the source is the real number it
  is written as, and rounding the literals used here to the nearest double keeps their
  order. A Python \<^verbatim>\<open>str\<close> is a \<open>string\<close>; one \<open>char\<close> stands for one code point
  below 256.
\<close>

datatype pyfloat = Finite real | PosInf | NegInf | NaN

datatype pyval =
    PNone
  | PBool bool
  | PInt int
  | PFloat pyfloat
  | PStr string
  | PList "pyval list"
  | PDict "(string \<times> pyval) list"

type_synonym pydict = "(string \<times> pyval) list"

text \<open>
  Exceptions are values. \<open>ValueError\<close> is raised both by an enum call on a value that
  is no member and by \<^verbatim>\<open>datetime.fromisoformat\<close> on a string it cannot parse; the
  payload tells them apart. \<open>Untyped k\<close> is no Python exception: the decoders store what
  they read without checking it, and a value whose type is not the annotated type of
  field \<open>k\<close> has no counterpart in the typed records below.
\<close>

datatype value_error =
    Not_a_valid string
  | Invalid_isoformat string

datatype py_error =
    KeyError string
  | ValueError value_error
  | TypeError
  | AttributeError
  | Untyped string

definition and_then :: "py_error + 'a \<Rightarrow> ('a \<Rightarrow> py_error + 'b) \<Rightarrow> py_error + 'b" where
  "and_then m f = (case m of Inl e \<Rightarrow> Inl e | Inr x \<Rightarrow> f x)"

text \<open>\<^verbatim>\<open>data.get(k, d)\<close> and \<^verbatim>\<open>data[k]\<close>.\<close>

definition dict_get :: "pydict \<Rightarrow> string \<Rightarrow> pyval \<Rightarrow> pyval" where
  "dict_get data k d = (case map_of data k of None \<Rightarrow> d | Some v \<Rightarrow> v)"

definition dict_item :: "pydict \<Rightarrow> string \<Rightarrow> py_error + pyval" where
  "dict_item data k = (case map_of data k of None \<Rightarrow> Inl (KeyError k) | Some v \<Rightarrow> Inr v)"

text \<open>Truth value testing, as \<^verbatim>\<open>if v\<close> does it.\<close>

fun py_truthy :: "pyval \<Rightarrow> bool" where
  "py_truthy PNone = False"
| "py_truthy (PBool b) = b"
| "py_truthy (PInt i) = (i \<noteq> 0)"
| "py_truthy (PFloat f) = (f \<noteq> Finite 0)"
| "py_truthy (PStr s) = (s \<noteq> [])"
| "py_truthy (PList xs) = (xs \<noteq> [])"
| "py_truthy (PDict d) = (d \<noteq> [])"

text \<open>Iteration over a value, as a list comprehension does it: a dict yields its keys,
  a string its characters, and a value that is not iterable raises \<^verbatim>\<open>TypeError\<close>.\<close>

definition py_iter :: "pyval \<Rightarrow> py_error + pyval list" where
  "py_iter v =
     (case v of
        PList xs \<Rightarrow> Inr xs
      | PStr s \<Rightarrow> Inr (map (\<lambda>c. PStr [c]) s)
      | PDict d \<Rightarrow> Inr (map (\<lambda>kv. PStr (fst kv)) d)
      | _ \<Rightarrow> Inl TypeError)"

text \<open>Comparison of a float with a finite constant: every comparison with NaN is false.\<close>

fun float_ge :: "pyfloat \<Rightarrow> real \<Rightarrow> bool" where
  "float_ge (Finite x) t = (x \<ge> t)"
| "float_ge PosInf t = True"
| "float_ge NegInf t = False"
| "float_ge NaN t = False"

fun float_lt :: "pyfloat \<Rightarrow> real \<Rightarrow> bool" where
  "float_lt (Finite x) t = (x < t)"
| "float_lt PosInf t = False"
| "float_lt NegInf t = True"
| "float_lt NaN t = False"

subsection \<open>The typed view of a stored value\<close>

definition as_str :: "string \<Rightarrow> pyval \<Rightarrow> py_error + string" where
  "as_str k v = (case v of PStr s \<Rightarrow> Inr s | _ \<Rightarrow> Inl (Untyped k))"

definition as_int :: "string \<Rightarrow> pyval \<Rightarrow> py_error + int" where
  "as_int k v = (case v of PInt i \<Rightarrow> Inr i | _ \<Rightarrow> Inl (Untyped k))"

definition as_float :: "string \<Rightarrow> pyval \<Rightarrow> py_error + pyfloat" where
  "as_float k v = (case v of PFloat f \<Rightarrow> Inr f | _ \<Rightarrow> Inl (Untyped k))"

definition as_dict :: "string \<Rightarrow> pyval \<Rightarrow> py_error + pydict" where
  "as_dict k v = (case v of PDict d \<Rightarrow> Inr d | _ \<Rightarrow> Inl (Untyped k))"

definition as_optional_int :: "string \<Rightarrow> pyval \<Rightarrow> py_error + int option" where
  "as_optional_int k v =
     (case v of PNone \<Rightarrow> Inr None | PInt i \<Rightarrow> Inr (Some i) | _ \<Rightarrow> Inl (Untyped k))"

fun as_str_items :: "string \<Rightarrow> pyval list \<Rightarrow> py_error + string list" where
  "as_str_items k [] = Inr []"
| "as_str_items k (v # vs) =
     and_then (as_str k v) (\<lambda>s. and_then (as_str_items k vs) (\<lambda>ss. Inr (s # ss)))"

definition as_str_list :: "string \<Rightarrow> pyval \<Rightarrow> py_error + string list" where
  "as_str_list k v = (case v of PList vs \<Rightarrow> as_str_items k vs | _ \<Rightarrow> Inl (Untyped k))"

fun as_float_items :: "string \<Rightarrow> pyval list \<Rightarrow> py_error + pyfloat list" where
  "as_float_items k [] = Inr []"
| "as_float_items k (v # vs) =
     and_then (as_float k v) (\<lambda>f. and_then (as_float_items k vs) (\<lambda>fs. Inr (f # fs)))"

definition as_optional_float_list :: "string \<Rightarrow> pyval \<Rightarrow> py_error + pyfloat list option" where
  "as_optional_float_list k v =
     (case v of
        PNone \<Rightarrow> Inr None
      | PList vs \<Rightarrow> and_then (as_float_items k vs) (\<lambda>fs. Inr (Some fs))
      | _ \<Rightarrow> Inl (Untyped k))"

section \<open>Strings and paths\<close>

text \<open>\<^verbatim>\<open>str.lower\<close>, on the code points below 256.\<close>

definition py_lower_char :: "char \<Rightarrow> char" where
  "py_lower_char c =
     (let n = (of_char c :: nat)
      in if (65 \<le> n \<and> n \<le> 90) \<or> (192 \<le> n \<and> n \<le> 222 \<and> n \<noteq> 215)
         then char_of (n + 32) else c)"

definition py_lower :: "string \<Rightarrow> string" where
  "py_lower s = map py_lower_char s"

text \<open>\<^verbatim>\<open>str.split()\<close> with no separator: the maximal runs of characters that are not
  whitespace.\<close>

definition py_isspace :: "char \<Rightarrow> bool" where
  "py_isspace c =
     (let n = (of_char c :: nat)
      in (9 \<le> n \<and> n \<le> 13) \<or> (28 \<le> n \<and> n \<le> 32) \<or> n = 133 \<or> n = 160)"

fun split_words :: "string \<Rightarrow> string \<Rightarrow> string list" where
  "split_words cur [] = (if cur = [] then [] else [cur])"
| "split_words cur (c # cs) =
     (if py_isspace c
      then (if cur = [] then split_words [] cs else cur # split_words [] cs)
      else split_words (cur @ [c]) cs)"

definition py_split :: "string \<Rightarrow> string list" where
  "py_split s = split_words [] s"

text \<open>\<^verbatim>\<open>str.split(sep)\<close> and \<^verbatim>\<open>str.rfind(c)\<close> (\<open>None\<close> for Python's \<open>-1\<close>).\<close>

fun split_sep :: "char \<Rightarrow> string \<Rightarrow> string \<Rightarrow> string list" where
  "split_sep sep cur [] = [cur]"
| "split_sep sep cur (c # cs) =
     (if c = sep then cur # split_sep sep [] cs else split_sep sep (cur @ [c]) cs)"

definition str_rfind :: "char \<Rightarrow> string \<Rightarrow> nat option" where
  "str_rfind c s =
     (if c \<in> set s
      then Some (length s - Suc (length (takeWhile (\<lambda>x. x \<noteq> c) (rev s))))
      else None)"

text \<open>
  \<^verbatim>\<open>pathlib.PurePosixPath\<close>: the name of a path is its last component, the empty and
  the \<^verbatim>\<open>.\<close> components dropped; the suffix of the name starts at its last dot, unless
  that dot is the first or the last character of the name.
\<close>

definition PurePath_name :: "string \<Rightarrow> string" where
  "PurePath_name p =
     (case filter (\<lambda>part. part \<noteq> [] \<and> part \<noteq> ''.'') (split_sep (CHR ''/'') [] p) of
        [] \<Rightarrow> []
      | part # parts \<Rightarrow> last (part # parts))"

definition PurePath_suffix :: "string \<Rightarrow> string" where
  "PurePath_suffix p =
     (let name = PurePath_name p
      in case str_rfind (CHR ''.'') name of
           None \<Rightarrow> []
         | Some i \<Rightarrow> if 0 < i \<and> Suc i < length name then drop i name else [])"

text \<open>\<^verbatim>\<open>Path(v)\<close> accepts a string and raises \<^verbatim>\<open>TypeError\<close> on any other value.\<close>

definition Path :: "pyval \<Rightarrow> py_error + string" where
  "Path v = (case v of PStr s \<Rightarrow> Inr s | _ \<Rightarrow> Inl TypeError)"

section \<open>Datetimes\<close>

text \<open>
  A \<^verbatim>\<open>datetime\<close>, as its seven fields and its UTC offset in microseconds: \<open>None\<close> for a
  naive datetime, \<open>Some off\<close> for an aware one (its \<^verbatim>\<open>utcoffset()\<close>). Python constructs
  valid values only (\<open>valid_datetime\<close>). The clock \<^verbatim>\<open>datetime.now()\<close>, which the module
  always calls without a time zone, is an argument \<open>now\<close> of every operation that reads
  it; an operation that reads it more than once (a decoder filling several absent
  timestamps) reads the same value each time.
\<close>

record datetime =
  year :: nat
  month :: nat
  day :: nat
  hour :: nat
  minute :: nat
  second :: nat
  microsecond :: nat
  utcoffset :: "int option"

definition is_leap :: "nat \<Rightarrow> bool" where
  "is_leap y = (y mod 4 = 0 \<and> (y mod 100 \<noteq> 0 \<or> y mod 400 = 0))"

definition days_in_month :: "nat \<Rightarrow> nat \<Rightarrow> nat" where
  "days_in_month y m =
     (if m = 2 then (if is_leap y then 29 else 28)
      else if m = 4 \<or> m = 6 \<or> m = 9 \<or> m = 11 then 30 else 31)"

definition valid_datetime :: "datetime \<Rightarrow> bool" where
  "valid_datetime d =
     (1 \<le> year d \<and> year d \<le> 9999 \<and> 1 \<le> month d \<and> month d \<le> 12 \<and>
      1 \<le> day d \<and> day d \<le> days_in_month (year d) (month d) \<and>
      hour d < 24 \<and> minute d < 60 \<and> second d < 60 \<and> microsecond d < 1000000 \<and>
      (case utcoffset d of
         None \<Rightarrow> True
       | Some off \<Rightarrow> - 86400000000 < off \<and> off < 86400000000))"

subsection \<open>Differences\<close>

definition days_before_year :: "nat \<Rightarrow> int" where
  "days_before_year y =
     (let y1 = int y - 1 in y1 * 365 + y1 div 4 - y1 div 100 + y1 div 400)"

definition days_before_month :: "nat \<Rightarrow> nat \<Rightarrow> int" where
  "days_before_month y m = int (sum_list (map (days_in_month y) [1..<m]))"

definition toordinal :: "datetime \<Rightarrow> int" where
  "toordinal d = days_before_year (year d) + days_before_month (year d) (month d) + int (day d)"

definition microseconds_of :: "datetime \<Rightarrow> int" where
  "microseconds_of d =
     (((toordinal d * 24 + int (hour d)) * 60 + int (minute d)) * 60 + int (second d)) * 1000000
       + int (microsecond d)"

text \<open>
  A \<^verbatim>\<open>timedelta\<close> is its length in microseconds; \<^verbatim>\<open>.days\<close> rounds towards minus
  infinity. The difference of two naive datetimes is that of their fields, the difference
  of two aware ones that of their instants, and the difference of a naive and an aware
  one raises \<^verbatim>\<open>TypeError\<close>.
\<close>

definition datetime_sub :: "datetime \<Rightarrow> datetime \<Rightarrow> py_error + int" where
  "datetime_sub a b =
     (case (utcoffset a, utcoffset b) of
        (None, None) \<Rightarrow> Inr (microseconds_of a - microseconds_of b)
      | (Some oa, Some ob) \<Rightarrow> Inr ((microseconds_of a - oa) - (microseconds_of b - ob))
      | _ \<Rightarrow> Inl TypeError)"

definition timedelta_days :: "int \<Rightarrow> int" where
  "timedelta_days td = td div 86400000000"

subsection \<open>Formatting\<close>

definition digit_char :: "nat \<Rightarrow> char" where
  "digit_char n = char_of (48 + n)"

text \<open>\<open>zero_pad w n\<close> is \<^verbatim>\<open>"%0wd" % n\<close> for a number of at most \<open>w\<close> digits, which the
  fields of a valid datetime are.\<close>

fun zero_pad :: "nat \<Rightarrow> nat \<Rightarrow> string" where
  "zero_pad 0 n = []"
| "zero_pad (Suc w) n = digit_char ((n div 10 ^ w) mod 10) # zero_pad w n"

text \<open>The UTC offset as \<^verbatim>\<open>isoformat\<close> writes it: sign, hours and minutes, the seconds
  when they or the microseconds are not zero, the microseconds when they are not zero.\<close>

definition format_offset :: "int \<Rightarrow> string" where
  "format_offset off =
     (let total = nat \<bar>off\<bar>;
          hh = total div 3600000000;
          mm = total div 60000000 mod 60;
          ss = total div 1000000 mod 60;
          us = total mod 1000000
      in (if off < 0 then ''-'' else ''+'') @ zero_pad 2 hh @ '':'' @ zero_pad 2 mm @
         (if ss \<noteq> 0 \<or> us \<noteq> 0
          then '':'' @ zero_pad 2 ss @ (if us \<noteq> 0 then ''.'' @ zero_pad 6 us else [])
          else []))"

text \<open>\<^verbatim>\<open>datetime.isoformat()\<close>: the fraction is left out when it is zero, the offset
  when the datetime is naive.\<close>

definition isoformat :: "datetime \<Rightarrow> string" where
  "isoformat d =
     zero_pad 4 (year d) @ ''-'' @ zero_pad 2 (month d) @ ''-'' @ zero_pad 2 (day d) @ ''T'' @
     zero_pad 2 (hour d) @ '':'' @ zero_pad 2 (minute d) @ '':'' @ zero_pad 2 (second d) @
     (if microsecond d = 0 then [] else ''.'' @ zero_pad 6 (microsecond d)) @
     (case utcoffset d of None \<Rightarrow> [] | Some off \<Rightarrow> format_offset off)"

subsection \<open>The standard library as a parameter\<close>

text \<open>
  Two library functions that the module calls give results that depend on the version
  of Python or on the platform: \<^verbatim>\<open>datetime.fromisoformat\<close>, which reads more layouts in
  later versions, and \<^verbatim>\<open>strftime\<close>, whose \<^verbatim>\<open>%Y\<close> the C library renders. They are
  parameters of the model: \<open>lib_fromisoformat lib s\<close> is the datetime that
  \<^verbatim>\<open>datetime.fromisoformat(s)\<close> returns, \<open>None\<close> when it raises \<^verbatim>\<open>ValueError\<close>, and
  \<open>lib_strftime lib d\<close> is \<^verbatim>\<open>d.strftime('%Y%m%d_%H%M%S_%f')\<close>. Every theorem is about
  every such library; what it needs of one is a hypothesis.
\<close>

record stdlib =
  lib_fromisoformat :: "string \<Rightarrow> datetime option"
  lib_strftime :: "datetime \<Rightarrow> string"

text \<open>\<^verbatim>\<open>datetime.fromisoformat(v)\<close> on a value: a value that is no string raises
  \<^verbatim>\<open>TypeError\<close>.\<close>

definition fromisoformat :: "stdlib \<Rightarrow> pyval \<Rightarrow> py_error + datetime" where
  "fromisoformat lib v =
     (case v of
        PStr s \<Rightarrow>
          (case lib_fromisoformat lib s of
             None \<Rightarrow> Inl (ValueError (Invalid_isoformat s))
           | Some d \<Rightarrow> Inr d)
      | _ \<Rightarrow> Inl TypeError)"

section \<open>Enumerations\<close>

datatype DocumentType = PDF | DOCX | MD | TXT | WEB | UNKNOWN

datatype ContentSource = LOCAL_DOCUMENT | WEB_SCRAPE | FORUM_POST | DOCUMENTATION | MANUAL

fun DocumentType_value :: "DocumentType \<Rightarrow> string" where
  "DocumentType_value PDF = ''pdf''"
| "DocumentType_value DOCX = ''docx''"
| "DocumentType_value MD = ''markdown''"
| "DocumentType_value TXT = ''text''"
| "DocumentType_value WEB = ''web''"
| "DocumentType_value UNKNOWN = ''unknown''"

fun ContentSource_value :: "ContentSource \<Rightarrow> string" where
  "ContentSource_value LOCAL_DOCUMENT = ''local_document''"
| "ContentSource_value WEB_SCRAPE = ''web_scrape''"
| "ContentSource_value FORUM_POST = ''forum_post''"
| "ContentSource_value DOCUMENTATION = ''documentation''"
| "ContentSource_value MANUAL = ''manual''"

text \<open>The enum call \<^verbatim>\<open>DocumentType(v)\<close> looks \<open>v\<close> up among the members' values and
  raises \<^verbatim>\<open>ValueError\<close> when there is none, whatever the type of \<open>v\<close>.\<close>

definition DocumentType_members :: "(string \<times> DocumentType) list" where
  "DocumentType_members =
     [(''pdf'', PDF), (''docx'', DOCX), (''markdown'', MD), (''text'', TXT), (''web'', WEB),
      (''unknown'', UNKNOWN)]"

definition ContentSource_members :: "(string \<times> ContentSource) list" where
  "ContentSource_members =
     [(''local_document'', LOCAL_DOCUMENT), (''web_scrape'', WEB_SCRAPE),
      (''forum_post'', FORUM_POST), (''documentation'', DOCUMENTATION), (''manual'', MANUAL)]"

definition DocumentType_call :: "pyval \<Rightarrow> py_error + DocumentType" where
  "DocumentType_call v =
     (case v of
        PStr s \<Rightarrow>
          (case map_of DocumentType_members s of
             None \<Rightarrow> Inl (ValueError (Not_a_valid ''DocumentType''))
           | Some t \<Rightarrow> Inr t)
      | _ \<Rightarrow> Inl (ValueError (Not_a_valid ''DocumentType'')))"

definition ContentSource_call :: "pyval \<Rightarrow> py_error + ContentSource" where
  "ContentSource_call v =
     (case v of
        PStr s \<Rightarrow>
          (case map_of ContentSource_members s of
             None \<Rightarrow> Inl (ValueError (Not_a_valid ''ContentSource''))
           | Some t \<Rightarrow> Inr t)
      | _ \<Rightarrow> Inl (ValueError (Not_a_valid ''ContentSource'')))"

section \<open>DocumentChunk\<close>

record DocumentChunk =
  content :: string
  source_file :: string
  chunk_id :: string
  start_char :: int
  end_char :: int
  metadata :: pydict
  embedding :: "pyfloat list option"
  document_type :: DocumentType
  content_source :: ContentSource
  created_at :: datetime

text \<open>
  \<^verbatim>\<open>_detect_document_type\<close>: the body of the \<^verbatim>\<open>try\<close> on the value of \<^verbatim>\<open>source_file\<close>,
  the handler that turns every exception into \<open>UNKNOWN\<close>, and the assignment to the chunk.
\<close>

definition type_mapping :: "(string \<times> DocumentType) list" where
  "type_mapping =
     [(''.pdf'', PDF), (''.docx'', DOCX), (''.md'', MD), (''.txt'', TXT), (''.html'', WEB),
      (''.htm'', WEB)]"

definition detect_document_type_try :: "pyval \<Rightarrow> py_error + DocumentType" where
  "detect_document_type_try v =
     and_then (Path v) (\<lambda>p.
       let suffix = py_lower (PurePath_suffix p)
       in Inr (case map_of type_mapping suffix of None \<Rightarrow> UNKNOWN | Some t \<Rightarrow> t))"

definition detect_document_type :: "pyval \<Rightarrow> DocumentType" where
  "detect_document_type v =
     (case detect_document_type_try v of Inl e \<Rightarrow> UNKNOWN | Inr t \<Rightarrow> t)"

definition DocumentChunk_detect_document_type :: "DocumentChunk \<Rightarrow> DocumentChunk" where
  "DocumentChunk_detect_document_type c =
     c\<lparr>document_type := detect_document_type (PStr (source_file c))\<rparr>"

text \<open>\<^verbatim>\<open>__post_init__\<close>. The generated constructor stores its arguments and calls it, so
  a chunk is constructed as \<open>DocumentChunk_post_init\<close> of the record of the arguments;
  an argument that is left out has its default (\<open>DocumentChunk_defaults\<close>).\<close>

definition DocumentChunk_post_init :: "DocumentChunk \<Rightarrow> DocumentChunk" where
  "DocumentChunk_post_init c =
     (let c1 = (if end_char c = 0 \<and> DocumentChunk.content c \<noteq> []
                then c\<lparr>end_char := start_char c + int (length (DocumentChunk.content c))\<rparr>
                else c)
      in if DocumentChunk.document_type c1 = UNKNOWN \<and> source_file c1 \<noteq> []
         then DocumentChunk_detect_document_type c1
         else c1)"

definition DocumentChunk_defaults :: "datetime \<Rightarrow> string \<Rightarrow> string \<Rightarrow> string \<Rightarrow> DocumentChunk" where
  "DocumentChunk_defaults now c f i =
     \<lparr>content = c, source_file = f, chunk_id = i, start_char = 0, end_char = 0,
      metadata = [], embedding = None, document_type = UNKNOWN,
      content_source = LOCAL_DOCUMENT, created_at = now\<rparr>"

definition DocumentChunk_length :: "DocumentChunk \<Rightarrow> int" where
  "DocumentChunk_length c = int (length (DocumentChunk.content c))"

definition DocumentChunk_word_count :: "DocumentChunk \<Rightarrow> int" where
  "DocumentChunk_word_count c = int (length (py_split (DocumentChunk.content c)))"

definition DocumentChunk_to_dict :: "DocumentChunk \<Rightarrow> pydict" where
  "DocumentChunk_to_dict c =
     [(''content'', PStr (DocumentChunk.content c)),
      (''source_file'', PStr (source_file c)),
      (''chunk_id'', PStr (DocumentChunk.chunk_id c)),
      (''start_char'', PInt (start_char c)),
      (''end_char'', PInt (end_char c)),
      (''metadata'', PDict (DocumentChunk.metadata c)),
      (''embedding'', (case embedding c of None \<Rightarrow> PNone | Some e \<Rightarrow> PList (map PFloat e))),
      (''document_type'', PStr (DocumentType_value (DocumentChunk.document_type c))),
      (''content_source'', PStr (ContentSource_value (DocumentChunk.content_source c))),
      (''created_at'', PStr (isoformat (DocumentChunk.created_at c))),
      (''length'', PInt (DocumentChunk_length c)),
      (''word_count'', PInt (DocumentChunk_word_count c))]"

text \<open>\<^verbatim>\<open>from_dict\<close>, in the order in which Python evaluates it: the two enum calls, the
  timestamp, the three subscripts, the \<^verbatim>\<open>get\<close>s, and the constructor call. The typed
  view of the stored values stands for that call.\<close>

definition DocumentChunk_from_dict :: "stdlib \<Rightarrow> datetime \<Rightarrow> pydict \<Rightarrow> py_error + DocumentChunk" where
  "DocumentChunk_from_dict lib now data =
     and_then (DocumentType_call (dict_get data ''document_type'' (PStr (DocumentType_value UNKNOWN)))) (\<lambda>doc_type.
     and_then (ContentSource_call (dict_get data ''content_source'' (PStr (ContentSource_value LOCAL_DOCUMENT)))) (\<lambda>content_src.
     and_then (fromisoformat lib (dict_get data ''created_at'' (PStr (isoformat now)))) (\<lambda>created.
     and_then (dict_item data ''content'') (\<lambda>v_content.
     and_then (dict_item data ''source_file'') (\<lambda>v_source_file.
     and_then (dict_item data ''chunk_id'') (\<lambda>v_chunk_id.
     and_then (as_str ''content'' v_content) (\<lambda>c.
     and_then (as_str ''source_file'' v_source_file) (\<lambda>f.
     and_then (as_str ''chunk_id'' v_chunk_id) (\<lambda>i.
     and_then (as_int ''start_char'' (dict_get data ''start_char'' (PInt 0))) (\<lambda>sc.
     and_then (as_int ''end_char'' (dict_get data ''end_char'' (PInt 0))) (\<lambda>ec.
     and_then (as_dict ''metadata'' (dict_get data ''metadata'' (PDict []))) (\<lambda>md.
     and_then (as_optional_float_list ''embedding'' (dict_get data ''embedding'' PNone)) (\<lambda>emb.
       Inr (DocumentChunk_post_init
         \<lparr>content = c, source_file = f, chunk_id = i, start_char = sc, end_char = ec,
          metadata = md, embedding = emb, document_type = doc_type,
          content_source = content_src, created_at = created\<rparr>))))))))))))))"

section \<open>ConversationMessage\<close>

record ConversationMessage =
  role :: string
  content :: string
  timestamp :: datetime
  message_id :: string
  sources :: "string list"
  metadata :: pydict
  token_count :: "int option"

definition ConversationMessage_post_init :: "stdlib \<Rightarrow> ConversationMessage \<Rightarrow> ConversationMessage" where
  "ConversationMessage_post_init lib m =
     (if message_id m = []
      then m\<lparr>message_id := role m @ ''_'' @ lib_strftime lib (ConversationMessage.timestamp m)\<rparr>
      else m)"

definition ConversationMessage_to_dict :: "ConversationMessage \<Rightarrow> pydict" where
  "ConversationMessage_to_dict m =
     [(''role'', PStr (role m)),
      (''content'', PStr (ConversationMessage.content m)),
      (''timestamp'', PStr (isoformat (ConversationMessage.timestamp m))),
      (''message_id'', PStr (message_id m)),
      (''sources'', PList (map PStr (sources m))),
      (''metadata'', PDict (ConversationMessage.metadata m)),
      (''token_count'', (case token_count m of None \<Rightarrow> PNone | Some n \<Rightarrow> PInt n))]"

definition ConversationMessage_from_dict :: "stdlib \<Rightarrow> datetime \<Rightarrow> pydict \<Rightarrow> py_error + ConversationMessage" where
  "ConversationMessage_from_dict lib now data =
     and_then (fromisoformat lib (dict_get data ''timestamp'' (PStr (isoformat now)))) (\<lambda>ts.
     and_then (dict_item data ''role'') (\<lambda>v_role.
     and_then (dict_item data ''content'') (\<lambda>v_content.
     and_then (as_str ''role'' v_role) (\<lambda>r.
     and_then (as_str ''content'' v_content) (\<lambda>c.
     and_then (as_str ''message_id'' (dict_get data ''message_id'' (PStr []))) (\<lambda>i.
     and_then (as_str_list ''sources'' (dict_get data ''sources'' (PList []))) (\<lambda>srcs.
     and_then (as_dict ''metadata'' (dict_get data ''metadata'' (PDict []))) (\<lambda>md.
     and_then (as_optional_int ''token_count'' (dict_get data ''token_count'' PNone)) (\<lambda>tc.
       Inr (ConversationMessage_post_init lib
         \<lparr>role = r, content = c, timestamp = ts, message_id = i, sources = srcs,
          metadata = md, token_count = tc\<rparr>))))))))))"

section \<open>SearchResult\<close>

record SearchResult =
  content :: string
  source :: string
  score :: pyfloat
  chunk_id :: string
  metadata :: pydict
  document_type :: DocumentType
  content_source :: ContentSource
  timestamp :: datetime

definition is_relevant :: "SearchResult \<Rightarrow> bool" where
  "is_relevant r = float_ge (score r) 0.7"

definition relevance_level :: "SearchResult \<Rightarrow> string" where
  "relevance_level r =
     (if float_ge (score r) 0.9 then ''Very High''
      else if float_ge (score r) 0.8 then ''High''
      else if float_ge (score r) 0.7 then ''Medium''
      else if float_ge (score r) 0.5 then ''Low''
      else ''Very Low'')"

definition SearchResult_to_dict :: "SearchResult \<Rightarrow> pydict" where
  "SearchResult_to_dict r =
     [(''content'', PStr (SearchResult.content r)),
      (''source'', PStr (source r)),
      (''score'', PFloat (score r)),
      (''chunk_id'', PStr (SearchResult.chunk_id r)),
      (''metadata'', PDict (SearchResult.metadata r)),
      (''document_type'', PStr (DocumentType_value (SearchResult.document_type r))),
      (''content_source'', PStr (ContentSource_value (SearchResult.content_source r))),
      (''timestamp'', PStr (isoformat (SearchResult.timestamp r))),
      (''relevance_level'', PStr (relevance_level r)),
      (''is_relevant'', PBool (is_relevant r))]"

definition SearchResult_from_dict :: "stdlib \<Rightarrow> datetime \<Rightarrow> pydict \<Rightarrow> py_error + SearchResult" where
  "SearchResult_from_dict lib now data =
     and_then (DocumentType_call (dict_get data ''document_type'' (PStr (DocumentType_value UNKNOWN)))) (\<lambda>doc_type.
     and_then (ContentSource_call (dict_get data ''content_source'' (PStr (ContentSource_value LOCAL_DOCUMENT)))) (\<lambda>content_src.
     and_then (fromisoformat lib (dict_get data ''timestamp'' (PStr (isoformat now)))) (\<lambda>ts.
     and_then (dict_item data ''content'') (\<lambda>v_content.
     and_then (dict_item data ''source'') (\<lambda>v_source.
     and_then (dict_item data ''score'') (\<lambda>v_score.
     and_then (as_str ''content'' v_content) (\<lambda>c.
     and_then (as_str ''source'' v_source) (\<lambda>src.
     and_then (as_float ''score'' v_score) (\<lambda>sc.
     and_then (as_str ''chunk_id'' (dict_get data ''chunk_id'' (PStr []))) (\<lambda>i.
     and_then (as_dict ''metadata'' (dict_get data ''metadata'' (PDict []))) (\<lambda>md.
       Inr \<lparr>content = c, source = src, score = sc, chunk_id = i, metadata = md,
            document_type = doc_type, content_source = content_src, timestamp = ts\<rparr>)))))))))))"

section \<open>WebSource\<close>

record WebSource =
  url :: string
  title :: string
  content :: string
  last_scraped :: "datetime option"
  scrape_frequency :: string
  status :: string
  content_type :: string
  quality_score :: pyfloat
  metadata :: pydict
  error_message :: string
  chunk_count :: int

text \<open>The thresholds of \<^verbatim>\<open>is_stale\<close> are integers, and \<^verbatim>\<open>float('inf')\<close> for a manual
  source; no number of days reaches the latter.\<close>

datatype day_threshold = Days int | Float_inf

fun days_ge :: "int \<Rightarrow> day_threshold \<Rightarrow> bool" where
  "days_ge n (Days k) = (n \<ge> k)"
| "days_ge n Float_inf = False"

definition frequency_days :: "(string \<times> day_threshold) list" where
  "frequency_days =
     [(''daily'', Days 1), (''weekly'', Days 7), (''monthly'', Days 30), (''manual'', Float_inf)]"

definition is_stale :: "datetime \<Rightarrow> WebSource \<Rightarrow> py_error + bool" where
  "is_stale now w =
     (case last_scraped w of
        None \<Rightarrow> Inr True
      | Some t \<Rightarrow>
          and_then (datetime_sub now t) (\<lambda>time_diff.
            let threshold_days =
                  (case map_of frequency_days (scrape_frequency w) of
                     None \<Rightarrow> Days 30
                   | Some th \<Rightarrow> th)
            in Inr (days_ge (timedelta_days time_diff) threshold_days)))"

definition is_high_quality :: "WebSource \<Rightarrow> bool" where
  "is_high_quality w = float_ge (quality_score w) 0.7"

definition status_emojis :: "(string \<times> string) list" where
  "status_emojis =
     [(''pending'', ''PENDING''), (''scraped'', ''SUCCESS''), (''failed'', ''FAILED''),
      (''excluded'', ''EXCLUDED'')]"

definition status_emoji :: "WebSource \<Rightarrow> string" where
  "status_emoji w = (case map_of status_emojis (status w) of None \<Rightarrow> ''UNKNOWN'' | Some e \<Rightarrow> e)"

text \<open>The two mutators return the updated source; \<open>now\<close> is the clock at the call.\<close>

definition mark_scraped :: "datetime \<Rightarrow> string \<Rightarrow> string \<Rightarrow> pyfloat \<Rightarrow> WebSource \<Rightarrow> WebSource" where
  "mark_scraped now new_content new_title new_quality_score w =
     w\<lparr>content := new_content,
       title := new_title,
       last_scraped := Some now,
       status := ''scraped'',
       quality_score := new_quality_score,
       error_message := []\<rparr>"

definition mark_failed :: "datetime \<Rightarrow> string \<Rightarrow> WebSource \<Rightarrow> WebSource" where
  "mark_failed now new_error_message w =
     w\<lparr>status := ''failed'',
       error_message := new_error_message,
       last_scraped := Some now\<rparr>"

text \<open>\<^verbatim>\<open>to_dict\<close> evaluates \<^verbatim>\<open>self.is_stale\<close> for one of its entries and raises what
  that raises.\<close>

definition WebSource_to_dict :: "datetime \<Rightarrow> WebSource \<Rightarrow> py_error + pydict" where
  "WebSource_to_dict now w =
     and_then (is_stale now w) (\<lambda>stale. Inr
       [(''url'', PStr (url w)),
        (''title'', PStr (title w)),
        (''content'', PStr (WebSource.content w)),
        (''last_scraped'',
           (case last_scraped w of None \<Rightarrow> PNone | Some t \<Rightarrow> PStr (isoformat t))),
        (''scrape_frequency'', PStr (scrape_frequency w)),
        (''status'', PStr (status w)),
        (''content_type'', PStr (content_type w)),
        (''quality_score'', PFloat (quality_score w)),
        (''metadata'', PDict (WebSource.metadata w)),
        (''error_message'', PStr (error_message w)),
        (''chunk_count'', PInt (chunk_count w)),
        (''is_stale'', PBool stale),
        (''is_high_quality'', PBool (is_high_quality w)),
        (''status_emoji'', PStr (status_emoji w))])"

text \<open>\<^verbatim>\<open>from_dict\<close> parses \<^verbatim>\<open>last_scraped\<close> only when the stored value is truthy.\<close>

definition WebSource_from_dict :: "stdlib \<Rightarrow> pydict \<Rightarrow> py_error + WebSource" where
  "WebSource_from_dict lib data =
     and_then (if py_truthy (dict_get data ''last_scraped'' PNone)
               then and_then (dict_item data ''last_scraped'') (\<lambda>v.
                    and_then (fromisoformat lib v) (\<lambda>t. Inr (Some t)))
               else Inr None) (\<lambda>scraped.
     and_then (dict_item data ''url'') (\<lambda>v_url.
     and_then (as_str ''url'' v_url) (\<lambda>u.
     and_then (as_str ''title'' (dict_get data ''title'' (PStr []))) (\<lambda>t.
     and_then (as_str ''content'' (dict_get data ''content'' (PStr []))) (\<lambda>c.
     and_then (as_str ''scrape_frequency'' (dict_get data ''scrape_frequency'' (PStr ''monthly''))) (\<lambda>freq.
     and_then (as_str ''status'' (dict_get data ''status'' (PStr ''pending''))) (\<lambda>st.
     and_then (as_str ''content_type'' (dict_get data ''content_type'' (PStr ''unknown''))) (\<lambda>ct.
     and_then (as_float ''quality_score'' (dict_get data ''quality_score'' (PFloat (Finite 0)))) (\<lambda>q.
     and_then (as_dict ''metadata'' (dict_get data ''metadata'' (PDict []))) (\<lambda>md.
     and_then (as_str ''error_message'' (dict_get data ''error_message'' (PStr []))) (\<lambda>err.
     and_then (as_int ''chunk_count'' (dict_get data ''chunk_count'' (PInt 0))) (\<lambda>n.
       Inr \<lparr>url = u, title = t, content = c, last_scraped = scraped, scrape_frequency = freq,
            status = st, content_type = ct, quality_score = q, metadata = md,
            error_message = err, chunk_count = n\<rparr>))))))))))))"

section \<open>ConversationSession\<close>

record ConversationSession =
  session_id :: string
  messages :: "ConversationMessage list"
  created_at :: datetime
  last_activity :: datetime
  metadata :: pydict

definition add_message :: "datetime \<Rightarrow> ConversationMessage \<Rightarrow> ConversationSession \<Rightarrow> ConversationSession" where
  "add_message now message s = s\<lparr>messages := messages s @ [message], last_activity := now\<rparr>"

text \<open>The slice \<^verbatim>\<open>xs[i:]\<close>: a negative start counts from the end, and a start outside
  the list is clamped to it.\<close>

definition slice_from :: "'a list \<Rightarrow> int \<Rightarrow> 'a list" where
  "slice_from xs i =
     (let n = int (length xs);
          start = (if i < 0 then max 0 (i + n) else min i n)
      in drop (nat start) xs)"

definition get_recent_messages :: "ConversationSession \<Rightarrow> int \<Rightarrow> ConversationMessage list" where
  "get_recent_messages s count =
     (if int (length (messages s)) > count then slice_from (messages s) (- count)
      else messages s)"

definition message_count :: "ConversationSession \<Rightarrow> int" where
  "message_count s = int (length (messages s))"

definition total_tokens :: "ConversationSession \<Rightarrow> int" where
  "total_tokens s =
     sum_list (map (\<lambda>msg. case token_count msg of None \<Rightarrow> 0 | Some n \<Rightarrow> n) (messages s))"

definition ConversationSession_to_dict :: "ConversationSession \<Rightarrow> pydict" where
  "ConversationSession_to_dict s =
     [(''session_id'', PStr (session_id s)),
      (''messages'', PList (map (\<lambda>msg. PDict (ConversationMessage_to_dict msg)) (messages s))),
      (''created_at'', PStr (isoformat (ConversationSession.created_at s))),
      (''last_activity'', PStr (isoformat (last_activity s))),
      (''metadata'', PDict (ConversationSession.metadata s)),
      (''message_count'', PInt (message_count s)),
      (''total_tokens'', PInt (total_tokens s))]"

text \<open>The comprehension over \<^verbatim>\<open>data.get('messages', [])\<close> decodes the items in order and
  stops at the first that fails; an item that is no dict has no \<^verbatim>\<open>get\<close>.\<close>

fun messages_from_items :: "stdlib \<Rightarrow> datetime \<Rightarrow> pyval list \<Rightarrow> py_error + ConversationMessage list" where
  "messages_from_items lib now [] = Inr []"
| "messages_from_items lib now (item # items) =
     and_then (case item of PDict d \<Rightarrow> ConversationMessage_from_dict lib now d | _ \<Rightarrow> Inl AttributeError) (\<lambda>m.
     and_then (messages_from_items lib now items) (\<lambda>ms. Inr (m # ms)))"

definition ConversationSession_from_dict :: "stdlib \<Rightarrow> datetime \<Rightarrow> pydict \<Rightarrow> py_error + ConversationSession" where
  "ConversationSession_from_dict lib now data =
     and_then (py_iter (dict_get data ''messages'' (PList []))) (\<lambda>items.
     and_then (messages_from_items lib now items) (\<lambda>msgs.
     and_then (fromisoformat lib (dict_get data ''created_at'' (PStr (isoformat now)))) (\<lambda>created.
     and_then (fromisoformat lib (dict_get data ''last_activity'' (PStr (isoformat now)))) (\<lambda>activity.
     and_then (dict_item data ''session_id'') (\<lambda>v_session_id.
     and_then (as_str ''session_id'' v_session_id) (\<lambda>i.
     and_then (as_dict ''metadata'' (dict_get data ''metadata'' (PDict []))) (\<lambda>md.
       Inr \<lparr>session_id = i, messages = msgs, created_at = created, last_activity = activity,
            metadata = md\<rparr>)))))))"

section \<open>An instance of the library\<close>

text \<open>
  Where a theorem is applied to concrete values, the library is \<open>example_lib\<close>. Its
  reader reads the strings that \<^verbatim>\<open>isoformat\<close> writes (date, any one separator, hours,
  minutes and seconds, the six-digit fraction and the offset when they are there) and
  returns on each of them the datetime that \<^verbatim>\<open>datetime.fromisoformat\<close> returns; it
  rejects every other string, among them layouts that \<^verbatim>\<open>datetime.fromisoformat\<close> reads
  (a date alone, a shorter fraction). Its \<^verbatim>\<open>strftime\<close> pads every field with zeros. The
  instance is applied only to strings that \<^verbatim>\<open>isoformat\<close> wrote and to strings that are
  no date at all (\<^verbatim>\<open>'yesterday'\<close>, the empty string), and no theorem is about it alone.
\<close>

definition digit_val :: "char \<Rightarrow> nat option" where
  "digit_val c =
     (let n = (of_char c :: nat) in if 48 \<le> n \<and> n \<le> 57 then Some (n - 48) else None)"

fun read_digits :: "nat \<Rightarrow> nat \<Rightarrow> string \<Rightarrow> (nat \<times> string) option" where
  "read_digits 0 acc s = Some (acc, s)"
| "read_digits (Suc w) acc [] = None"
| "read_digits (Suc w) acc (c # cs) =
     (case digit_val c of None \<Rightarrow> None | Some d \<Rightarrow> read_digits w (10 * acc + d) cs)"

definition expect :: "char \<Rightarrow> string \<Rightarrow> string option" where
  "expect c s = (case s of [] \<Rightarrow> None | x # xs \<Rightarrow> if x = c then Some xs else None)"

definition read_date :: "string \<Rightarrow> (nat \<times> nat \<times> nat \<times> string) option" where
  "read_date s =
     Option.bind (read_digits 4 0 s) (\<lambda>(y, s1).
     Option.bind (expect (CHR ''-'') s1) (\<lambda>s2.
     Option.bind (read_digits 2 0 s2) (\<lambda>(mo, s3).
     Option.bind (expect (CHR ''-'') s3) (\<lambda>s4.
     Option.bind (read_digits 2 0 s4) (\<lambda>(d, s5). Some (y, mo, d, s5))))))"

definition read_clock :: "string \<Rightarrow> (nat \<times> nat \<times> nat \<times> string) option" where
  "read_clock s =
     Option.bind (read_digits 2 0 s) (\<lambda>(h, s1).
     Option.bind (expect (CHR '':'') s1) (\<lambda>s2.
     Option.bind (read_digits 2 0 s2) (\<lambda>(mi, s3).
     Option.bind (expect (CHR '':'') s3) (\<lambda>s4.
     Option.bind (read_digits 2 0 s4) (\<lambda>(sec, s5). Some (h, mi, sec, s5))))))"

definition read_fraction :: "string \<Rightarrow> (nat \<times> string) option" where
  "read_fraction s =
     (case s of
        [] \<Rightarrow> Some (0, [])
      | c # cs \<Rightarrow> if c = CHR ''.'' then read_digits 6 0 cs else Some (0, s))"

definition read_offset :: "string \<Rightarrow> int option option" where
  "read_offset s =
     (case s of
        [] \<Rightarrow> Some None
      | c # cs \<Rightarrow>
          if c = CHR ''+'' \<or> c = CHR ''-'' then
            Option.bind (read_digits 2 0 cs) (\<lambda>(hh, s1).
            Option.bind (expect (CHR '':'') s1) (\<lambda>s2.
            Option.bind (read_digits 2 0 s2) (\<lambda>(mm, s3).
            Option.bind
              (case s3 of
                 [] \<Rightarrow> Some (0, [])
               | x # xs \<Rightarrow> if x = CHR '':'' then read_digits 2 0 xs else None) (\<lambda>(ss, s4).
            Option.bind (read_fraction s4) (\<lambda>(us, s5).
              if s5 = []
              then Some (Some ((if c = CHR ''-'' then - 1 else 1) *
                     int (((hh * 60 + mm) * 60 + ss) * 1000000 + us)))
              else None)))))
          else None)"

definition isoformat_reader :: "string \<Rightarrow> datetime option" where
  "isoformat_reader s =
     Option.bind (read_date s) (\<lambda>(y, mo, d, s1).
       case s1 of
         [] \<Rightarrow> None
       | sep # s2 \<Rightarrow>
           Option.bind (read_clock s2) (\<lambda>(h, mi, sec, s3).
           Option.bind (read_fraction s3) (\<lambda>(us, s4).
           Option.bind (read_offset s4) (\<lambda>off.
             let dt = \<lparr>year = y, month = mo, day = d, hour = h, minute = mi,
                        second = sec, microsecond = us, utcoffset = off\<rparr>
             in if valid_datetime dt then Some dt else None))))"

definition strftime_padded :: "datetime \<Rightarrow> string" where
  "strftime_padded d =
     zero_pad 4 (year d) @ zero_pad 2 (month d) @ zero_pad 2 (day d) @ ''_'' @
     zero_pad 2 (hour d) @ zero_pad 2 (minute d) @ zero_pad 2 (second d) @ ''_'' @
     zero_pad 6 (microsecond d)"

definition example_lib :: stdlib where
  "example_lib = \<lparr>lib_fromisoformat = isoformat_reader, lib_strftime = strftime_padded\<rparr>"

section \<open>Example values\<close>

definition example_time :: datetime where
  "example_time =
     \<lparr>year = 2024, month = 3, day = 15, hour = 10, minute = 30, second = 45,
      microsecond = 123456, utcoffset = None\<rparr>"

text \<open>The same time of day at UTC+05:30.\<close>

definition example_aware_time :: datetime where
  "example_aware_time = example_time\<lparr>utcoffset := Some 19800000000\<rparr>"

definition example_chunk :: DocumentChunk where
  "example_chunk =
     \<lparr>DocumentChunk.content = ''Hello world'', source_file = ''docs/Guide.PDF'',
      DocumentChunk.chunk_id = ''c1'', start_char = 10, end_char = 0,
      DocumentChunk.metadata = [(''page'', PInt 3)],
      embedding = Some [Finite 0.5, Finite 1], DocumentChunk.document_type = UNKNOWN,
      DocumentChunk.content_source = LOCAL_DOCUMENT,
      DocumentChunk.created_at = example_time\<rparr>"

definition example_message :: "string \<Rightarrow> ConversationMessage" where
  "example_message text =
     \<lparr>role = ''user'', ConversationMessage.content = text,
      ConversationMessage.timestamp = example_time, message_id = [],
      sources = [''docs/Guide.PDF''], ConversationMessage.metadata = [],
      token_count = Some 4\<rparr>"

definition example_result :: SearchResult where
  "example_result =
     \<lparr>SearchResult.content = ''Hello world'', source = ''docs/Guide.PDF'',
      score = Finite 0.82, SearchResult.chunk_id = ''c1'', SearchResult.metadata = [],
      SearchResult.document_type = PDF, SearchResult.content_source = LOCAL_DOCUMENT,
      SearchResult.timestamp = example_time\<rparr>"

definition example_source :: WebSource where
  "example_source =
     \<lparr>url = ''https://docs.example.com/x'', title = ''Title'',
      WebSource.content = ''body text'', last_scraped = Some example_time,
      scrape_frequency = ''weekly'', status = ''scraped'',
      content_type = ''documentation'', quality_score = Finite 0.82,
      WebSource.metadata = [], error_message = [], chunk_count = 2\<rparr>"

definition example_session :: ConversationSession where
  "example_session =
     \<lparr>session_id = ''s1'',
      messages = map (ConversationMessage_post_init example_lib)
        [example_message ''one'', example_message ''two'', example_message ''three''],
      ConversationSession.created_at = example_time, last_activity = example_time,
      ConversationSession.metadata = []\<rparr>"

definition example_later :: "nat \<Rightarrow> datetime" where
  "example_later n = example_time\<lparr>day := 15 + n\<rparr>"

definition empty_chunk :: DocumentChunk where
  "empty_chunk =
     \<lparr>DocumentChunk.content = [], source_file = ''notes.txt'',
      DocumentChunk.chunk_id = ''c2'', start_char = 5, end_char = 0,
      DocumentChunk.metadata = [], embedding = None, DocumentChunk.document_type = UNKNOWN,
      DocumentChunk.content_source = LOCAL_DOCUMENT,
      DocumentChunk.created_at = example_time\<rparr>"

text \<open>A chunk whose type was set back to unknown after its construction; a dictionary
  whose \<^verbatim>\<open>last_scraped\<close> carries an offset, and the source
  \<^verbatim>\<open>WebSource(url=..., last_scraped=...)\<close> with that aware datetime, which is also what the
  dictionary decodes to.\<close>

definition mutated_chunk :: DocumentChunk where
  "mutated_chunk =
     (DocumentChunk_post_init example_chunk)\<lparr>DocumentChunk.document_type := UNKNOWN\<rparr>"

definition aware_record :: pydict where
  "aware_record =
     [(''url'', PStr ''https://docs.example.com/x''),
      (''last_scraped'', PStr (isoformat example_aware_time))]"

definition aware_source :: WebSource where
  "aware_source =
     \<lparr>url = ''https://docs.example.com/x'', title = [], WebSource.content = [],
      last_scraped = Some example_aware_time, scrape_frequency = ''monthly'',
      status = ''pending'', content_type = ''unknown'', quality_score = Finite 0,
      WebSource.metadata = [], error_message = [], chunk_count = 0\<rparr>"

definition dotfile_chunk :: DocumentChunk where
  "dotfile_chunk = DocumentChunk_defaults example_time ''text'' ''.pdf'' ''c3''"

definition example_record :: pydict where
  "example_record =
     [(''content'', PStr ''Hello world''), (''source_file'', PStr ''docs/Guide.PDF''),
      (''chunk_id'', PStr ''c1''), (''document_type'', PStr ''unknown'')]"

definition dotfile_record :: pydict where
  "dotfile_record =
     [(''content'', PStr ''text''), (''source_file'', PStr ''.pdf''),
      (''chunk_id'', PStr ''c3''), (''document_type'', PStr ''unknown'')]"

definition unscraped_record :: pydict where
  "unscraped_record = [(''url'', PStr ''https://docs.example.com/x''), (''last_scraped'', PStr [])]"

definition bad_enum_record :: pydict where
  "bad_enum_record =
     [(''source_file'', PStr ''a.txt''), (''chunk_id'', PStr ''c1''),
      (''document_type'', PStr ''bogus'')]"

definition missing_content_record :: pydict where
  "missing_content_record = [(''source_file'', PStr ''a.txt''), (''chunk_id'', PStr ''c1'')]"

definition bad_timestamp_record :: pydict where
  "bad_timestamp_record =
     [(''role'', PStr ''user''), (''content'', PStr ''hi''), (''timestamp'', PStr ''yesterday'')]"

text \<open>\<^verbatim>\<open>str.endswith\<close>, for the statement that a file name ends in an extension.\<close>

definition str_endswith :: "string \<Rightarrow> string \<Rightarrow> bool" where
  "str_endswith s suffix =
     (length suffix \<le> length s \<and> drop (length s - length suffix) s = suffix)"

section \<open>Formatting and reading a datetime\<close>

lemma digit_val_digit_char: "n < 10 \<Longrightarrow> digit_val (digit_char n) = Some n"
  by (simp add: digit_val_def digit_char_def Let_def)

lemma length_zero_pad: "length (zero_pad w n) = w"
  by (induction w) simp_all

lemma read_digits_zero_pad:
  "read_digits w acc (zero_pad w n @ rest) = Some (acc * 10 ^ w + n mod 10 ^ w, rest)"
proof (induction w arbitrary: acc)
  case 0
  show ?case by simp
next
  case (Suc w)
  let ?d = "n div 10 ^ w mod 10"
  have split: "n mod 10 ^ Suc w = 10 ^ w * ?d + n mod 10 ^ w"
    using mod_mult2_eq [of n "10 ^ w" 10] by (simp add: mult.commute)
  have "read_digits (Suc w) acc (zero_pad (Suc w) n @ rest) =
        read_digits w (10 * acc + ?d) (zero_pad w n @ rest)"
    by (simp add: digit_val_digit_char)
  also have "\<dots> = Some ((10 * acc + ?d) * 10 ^ w + n mod 10 ^ w, rest)"
    by (rule Suc.IH)
  also have "(10 * acc + ?d) * 10 ^ w + n mod 10 ^ w = acc * 10 ^ Suc w + n mod 10 ^ Suc w"
    unfolding split by (simp add: algebra_simps)
  finally show ?case .
qed

lemma read_field:
  "n < 10 ^ w \<Longrightarrow> read_digits w 0 (zero_pad w n @ rest) = Some (n, rest)"
  by (simp add: read_digits_zero_pad)

lemma read_field_end:
  "n < 10 ^ w \<Longrightarrow> read_digits w 0 (zero_pad w n) = Some (n, [])"
  using read_field [of n w "[]"] by simp

lemma expect_Cons: "expect c (c # s) = Some s"
  by (simp add: expect_def)

lemma read_date_written:
  assumes "y < 10000" "mo < 100" "d < 100"
  shows "read_date (zero_pad 4 y @ CHR ''-'' # zero_pad 2 mo @ CHR ''-'' # zero_pad 2 d @ rest)
         = Some (y, mo, d, rest)"
  using assms by (simp add: read_date_def read_field expect_Cons)

lemma read_clock_written:
  assumes "h < 100" "mi < 100" "sec < 100"
  shows "read_clock (zero_pad 2 h @ CHR '':'' # zero_pad 2 mi @ CHR '':'' # zero_pad 2 sec @ rest)
         = Some (h, mi, sec, rest)"
  using assms by (simp add: read_clock_def read_field expect_Cons)

lemma read_fraction_written:
  "us < 1000000 \<Longrightarrow> read_fraction (CHR ''.'' # zero_pad 6 us @ rest) = Some (us, rest)"
  by (simp add: read_fraction_def read_field)

lemma read_fraction_Nil: "read_fraction [] = Some (0, [])"
  by (simp add: read_fraction_def)

lemma format_offset_Cons:
  "\<exists>cs. format_offset off = CHR ''+'' # cs \<or> format_offset off = CHR ''-'' # cs"
  by (simp add: format_offset_def Let_def)

lemma read_fraction_offset:
  "read_fraction (format_offset off) = Some (0, format_offset off)"
proof -
  obtain cs where "format_offset off = CHR ''+'' # cs \<or> format_offset off = CHR ''-'' # cs"
    using format_offset_Cons by blast
  then show ?thesis
    by (auto simp add: read_fraction_def)
qed

lemma offset_parts:
  fixes t :: nat
  shows "((t div 3600000000 * 60 + t div 60000000 mod 60) * 60 + t div 1000000 mod 60) * 1000000
           + t mod 1000000 = t"
proof -
  let ?s = "t div 1000000"
  let ?m = "?s div 60"
  have a: "t div 60000000 = ?m"
    using div_mult2_eq [of t 1000000 60] by simp
  have b: "t div 3600000000 = ?m div 60"
    using div_mult2_eq [of t 60000000 60] a by simp
  show ?thesis
    unfolding a b by simp
qed

lemma read_offset_written:
  assumes "- 86400000000 < off" "off < 86400000000"
  shows "read_offset (format_offset off) = Some (Some off)"
proof -
  define t where "t = nat \<bar>off\<bar>"
  define hh where "hh = t div 3600000000"
  define mm where "mm = t div 60000000 mod 60"
  define ss where "ss = t div 1000000 mod 60"
  define us where "us = t mod 1000000"
  have t: "t < 86400000000" using assms by (simp add: t_def)
  have bounds: "hh < 100" "mm < 100" "ss < 100" "us < 1000000"
    using t by (simp_all add: hh_def mm_def ss_def us_def div_less_iff_less_mult)
  have total: "((hh * 60 + mm) * 60 + ss) * 1000000 + us = t"
    unfolding hh_def mm_def ss_def us_def by (rule offset_parts)
  have signed: "(if off < 0 then - 1 else 1) * int t = off"
    by (simp add: t_def)
  define sgn where "sgn = (if off < 0 then CHR ''-'' else CHR ''+'')"
  have sgn: "sgn = CHR ''+'' \<or> sgn = CHR ''-''" "(sgn = CHR ''-'') = (off < 0)"
    by (simp_all add: sgn_def)
  have fmt: "format_offset off = sgn # zero_pad 2 hh @ CHR '':'' # zero_pad 2 mm @
      (if ss \<noteq> 0 \<or> us \<noteq> 0
       then CHR '':'' # zero_pad 2 ss @ (if us \<noteq> 0 then CHR ''.'' # zero_pad 6 us else [])
       else [])"
    by (simp add: format_offset_def Let_def t_def hh_def mm_def ss_def us_def sgn_def
        del: zero_pad.simps)
  have res: "Some (Some ((if sgn = CHR ''-'' then - 1 else 1) *
      int (((hh * 60 + mm) * 60 + ss) * 1000000 + us))) = Some (Some off)"
    using signed sgn(2) total by simp
  consider (short) "ss = 0" "us = 0" | (secs) "ss \<noteq> 0 \<or> us \<noteq> 0" "us = 0"
    | (frac) "us \<noteq> 0" by blast
  then show ?thesis
  proof cases
    case short
    have "read_offset (format_offset off) = Some (Some ((if sgn = CHR ''-'' then - 1 else 1) *
      int (((hh * 60 + mm) * 60 + 0) * 1000000 + 0)))"
      unfolding fmt using sgn(1) bounds short
      by (simp add: read_offset_def read_field read_field_end expect_Cons read_fraction_Nil
          del: zero_pad.simps)
    with res short show ?thesis by simp
  next
    case secs
    have "read_offset (format_offset off) = Some (Some ((if sgn = CHR ''-'' then - 1 else 1) *
      int (((hh * 60 + mm) * 60 + ss) * 1000000 + 0)))"
      unfolding fmt using sgn(1) bounds secs
      by (simp add: read_offset_def read_field read_field_end expect_Cons read_fraction_Nil
          del: zero_pad.simps)
    with res secs show ?thesis by simp
  next
    case frac
    have "read_fraction (CHR ''.'' # zero_pad 6 us) = Some (us, [])"
      using read_fraction_written [of us "[]"] bounds by simp
    then have "read_offset (format_offset off) = Some (Some ((if sgn = CHR ''-'' then - 1 else 1) *
      int (((hh * 60 + mm) * 60 + ss) * 1000000 + us)))"
      unfolding fmt using sgn(1) bounds frac
      by (simp add: read_offset_def read_field expect_Cons del: zero_pad.simps)
    with res show ?thesis by simp
  qed
qed

lemma isoformat_reader_isoformat:
  assumes "valid_datetime d"
  shows "isoformat_reader (isoformat d) = Some d"
proof -
  obtain y mo dd h mi sec us off where d: "d = \<lparr>year = y, month = mo, day = dd, hour = h,
      minute = mi, second = sec, microsecond = us, utcoffset = off\<rparr>"
    by (cases d) blast
  from assms have bounds: "y < 10000" "mo < 100" "dd < 100" "h < 100" "mi < 100" "sec < 100"
      "us < 1000000"
    by (simp_all add: d valid_datetime_def days_in_month_def split: if_splits)
  define X where "X = (case off of None \<Rightarrow> [] | Some z \<Rightarrow> format_offset z)"
  define F where "F = (if us = 0 then [] else CHR ''.'' # zero_pad 6 us)"
  have ro: "read_offset X = Some off"
  proof (cases off)
    case None
    then show ?thesis by (simp add: X_def read_offset_def)
  next
    case (Some z)
    with assms have "- 86400000000 < z" "z < 86400000000"
      by (simp_all add: d valid_datetime_def)
    then show ?thesis
      by (simp add: X_def Some read_offset_written)
  qed
  have rf0: "read_fraction X = Some (0, X)"
    by (cases off) (simp_all add: X_def read_fraction_Nil read_fraction_offset)
  have rf: "read_fraction (F @ X) = Some (us, X)"
  proof (cases "us = 0")
    case True
    then show ?thesis by (simp add: F_def rf0)
  next
    case False
    then show ?thesis
      using read_fraction_written [of us X] bounds by (simp add: F_def)
  qed
  have iso: "isoformat d = zero_pad 4 y @ CHR ''-'' # zero_pad 2 mo @ CHR ''-'' # zero_pad 2 dd @
      (CHR ''T'' # (zero_pad 2 h @ CHR '':'' # zero_pad 2 mi @ CHR '':'' # zero_pad 2 sec @ (F @ X)))"
    by (simp add: isoformat_def d F_def X_def del: zero_pad.simps)
  have rd: "read_date (isoformat d) = Some (y, mo, dd,
      CHR ''T'' # (zero_pad 2 h @ CHR '':'' # zero_pad 2 mi @ CHR '':'' # zero_pad 2 sec @ (F @ X)))"
    unfolding iso using bounds(1,2,3) by (rule read_date_written)
  have rc: "read_clock (zero_pad 2 h @ CHR '':'' # zero_pad 2 mi @ CHR '':'' # zero_pad 2 sec @ (F @ X))
      = Some (h, mi, sec, F @ X)"
    using bounds by (intro read_clock_written) simp_all
  have "isoformat_reader (isoformat d) =
      (let dt = \<lparr>year = y, month = mo, day = dd, hour = h, minute = mi,
                 second = sec, microsecond = us, utcoffset = off\<rparr>
       in if valid_datetime dt then Some dt else None)"
    by (simp add: isoformat_reader_def rd rc rf ro del: zero_pad.simps)
  with assms show ?thesis
    by (simp add: d)
qed

lemma example_lib_inverse:
  "valid_datetime d \<Longrightarrow> lib_fromisoformat example_lib (isoformat d) = Some d"
  by (simp add: example_lib_def isoformat_reader_isoformat)

lemma fromisoformat_inverse:
  "lib_fromisoformat lib (isoformat t) = Some t \<Longrightarrow> fromisoformat lib (PStr (isoformat t)) = Inr t"
  by (simp add: fromisoformat_def)

lemma isoformat_not_empty: "isoformat d \<noteq> []"
  by (simp add: isoformat_def)

lemma valid_example_time: "valid_datetime example_time"
  by (simp add: example_time_def valid_datetime_def days_in_month_def is_leap_def)

lemma valid_example_aware_time: "valid_datetime example_aware_time"
  by (simp add: example_aware_time_def example_time_def valid_datetime_def days_in_month_def
      is_leap_def)

section \<open>Decoding an encoded entity\<close>

lemma as_str_items_map: "as_str_items k (map PStr xs) = Inr xs"
  by (induction xs) (simp_all add: and_then_def as_str_def)

lemma as_float_items_map: "as_float_items k (map PFloat xs) = Inr xs"
  by (induction xs) (simp_all add: and_then_def as_float_def)

lemma DocumentType_call_value: "DocumentType_call (PStr (DocumentType_value t)) = Inr t"
  by (cases t) (simp_all add: DocumentType_call_def DocumentType_members_def)

lemma ContentSource_call_value: "ContentSource_call (PStr (ContentSource_value t)) = Inr t"
  by (cases t) (simp_all add: ContentSource_call_def ContentSource_members_def)

lemma DocumentChunk_decode_encode:
  assumes "lib_fromisoformat lib (isoformat (DocumentChunk.created_at c))
           = Some (DocumentChunk.created_at c)"
  shows "DocumentChunk_from_dict lib now (DocumentChunk_to_dict c)
         = Inr (DocumentChunk_post_init c)"
proof (cases c)
  case (fields c1 c2 c3 c4 c5 c6 c7 c8 c9 c10)
  with assms have v: "fromisoformat lib (PStr (isoformat c10)) = Inr c10"
    by (simp add: fromisoformat_inverse)
  show ?thesis
    unfolding fields using v
    by (cases c7)
       (simp_all add: DocumentChunk_from_dict_def DocumentChunk_to_dict_def dict_get_def
          dict_item_def and_then_def DocumentType_call_value ContentSource_call_value
          as_str_def as_int_def as_dict_def as_optional_float_list_def as_float_items_map)
qed

lemma ConversationMessage_decode_encode:
  assumes "lib_fromisoformat lib (isoformat (ConversationMessage.timestamp m))
           = Some (ConversationMessage.timestamp m)"
  shows "ConversationMessage_from_dict lib now (ConversationMessage_to_dict m)
         = Inr (ConversationMessage_post_init lib m)"
proof (cases m)
  case (fields c1 c2 c3 c4 c5 c6 c7)
  with assms have v: "fromisoformat lib (PStr (isoformat c3)) = Inr c3"
    by (simp add: fromisoformat_inverse)
  show ?thesis
    unfolding fields using v
    by (cases c7)
       (simp_all add: ConversationMessage_from_dict_def ConversationMessage_to_dict_def
          dict_get_def dict_item_def and_then_def as_str_def
          as_dict_def as_str_list_def as_str_items_map as_optional_int_def)
qed

lemma SearchResult_decode_encode:
  assumes "lib_fromisoformat lib (isoformat (SearchResult.timestamp r))
           = Some (SearchResult.timestamp r)"
  shows "SearchResult_from_dict lib now (SearchResult_to_dict r) = Inr r"
proof (cases r)
  case (fields c1 c2 c3 c4 c5 c6 c7 c8)
  with assms have v: "fromisoformat lib (PStr (isoformat c8)) = Inr c8"
    by (simp add: fromisoformat_inverse)
  show ?thesis
    unfolding fields using v
    by (simp add: SearchResult_from_dict_def SearchResult_to_dict_def
          dict_get_def dict_item_def and_then_def DocumentType_call_value
          ContentSource_call_value as_str_def as_dict_def as_float_def)
qed

lemma WebSource_decode_encode:
  assumes "WebSource_to_dict now w = Inr d"
    and "\<forall>t. last_scraped w = Some t \<longrightarrow> lib_fromisoformat lib (isoformat t) = Some t"
  shows "WebSource_from_dict lib d = Inr w"
proof -
  obtain stale where stale: "is_stale now w = Inr stale"
    using assms(1)
    by (cases "is_stale now w") (simp_all add: WebSource_to_dict_def and_then_def)
  have d: "d =
       [(''url'', PStr (url w)),
        (''title'', PStr (title w)),
        (''content'', PStr (WebSource.content w)),
        (''last_scraped'',
           (case last_scraped w of None \<Rightarrow> PNone | Some t \<Rightarrow> PStr (isoformat t))),
        (''scrape_frequency'', PStr (scrape_frequency w)),
        (''status'', PStr (status w)),
        (''content_type'', PStr (content_type w)),
        (''quality_score'', PFloat (quality_score w)),
        (''metadata'', PDict (WebSource.metadata w)),
        (''error_message'', PStr (error_message w)),
        (''chunk_count'', PInt (chunk_count w)),
        (''is_stale'', PBool stale),
        (''is_high_quality'', PBool (is_high_quality w)),
        (''status_emoji'', PStr (status_emoji w))]"
    using assms(1) by (simp add: WebSource_to_dict_def and_then_def stale)
  show ?thesis
  proof (cases "last_scraped w")
    case None
    then show ?thesis
      unfolding d
      by (simp add: WebSource_from_dict_def dict_get_def dict_item_def and_then_def
          as_str_def as_dict_def as_float_def as_int_def)
  next
    case (Some t)
    with assms(2) have v: "fromisoformat lib (PStr (isoformat t)) = Inr t"
      by (simp add: fromisoformat_inverse)
    show ?thesis
      unfolding d using Some v
      by (simp add: WebSource_from_dict_def isoformat_not_empty dict_get_def dict_item_def
          and_then_def as_str_def as_dict_def as_float_def as_int_def)
  qed
qed

lemma messages_decode_encode:
  assumes "\<forall>m \<in> set ms. lib_fromisoformat lib (isoformat (ConversationMessage.timestamp m))
             = Some (ConversationMessage.timestamp m)"
  shows "messages_from_items lib now (map (\<lambda>msg. PDict (ConversationMessage_to_dict msg)) ms)
         = Inr (map (ConversationMessage_post_init lib) ms)"
  using assms
  by (induction ms) (simp_all add: ConversationMessage_decode_encode and_then_def)

lemma ConversationSession_decode_encode:
  assumes "lib_fromisoformat lib (isoformat (ConversationSession.created_at s))
             = Some (ConversationSession.created_at s)"
    and "lib_fromisoformat lib (isoformat (last_activity s)) = Some (last_activity s)"
    and "\<forall>m \<in> set (messages s). lib_fromisoformat lib (isoformat (ConversationMessage.timestamp m))
             = Some (ConversationMessage.timestamp m)"
  shows "ConversationSession_from_dict lib now (ConversationSession_to_dict s)
         = Inr (s\<lparr>messages := map (ConversationMessage_post_init lib) (messages s)\<rparr>)"
proof (cases s)
  case (fields c1 c2 c3 c4 c5)
  with assms have v: "fromisoformat lib (PStr (isoformat c3)) = Inr c3"
    "fromisoformat lib (PStr (isoformat c4)) = Inr c4"
    "\<forall>m \<in> set c2. lib_fromisoformat lib (isoformat (ConversationMessage.timestamp m))
             = Some (ConversationMessage.timestamp m)"
    by (simp_all add: fromisoformat_inverse)
  show ?thesis
    unfolding fields using v(1,2) messages_decode_encode [OF v(3), of now]
    by (simp add: ConversationSession_from_dict_def ConversationSession_to_dict_def
          dict_get_def dict_item_def and_then_def py_iter_def as_str_def as_dict_def)
qed

lemma DocumentChunk_post_init_idem:
  "DocumentChunk_post_init (DocumentChunk_post_init c) = DocumentChunk_post_init c"
  by (simp add: DocumentChunk_post_init_def DocumentChunk_detect_document_type_def Let_def)

lemma ConversationMessage_post_init_idem:
  "ConversationMessage_post_init lib (ConversationMessage_post_init lib m)
   = ConversationMessage_post_init lib m"
  by (simp add: ConversationMessage_post_init_def)

lemma DocumentChunk_post_init_created_at:
  "DocumentChunk.created_at (DocumentChunk_post_init c) = DocumentChunk.created_at c"
  by (simp add: DocumentChunk_post_init_def DocumentChunk_detect_document_type_def Let_def)

lemma ConversationMessage_post_init_timestamp:
  "ConversationMessage.timestamp (ConversationMessage_post_init lib m)
   = ConversationMessage.timestamp m"
  by (simp add: ConversationMessage_post_init_def)

lemma dict_get_update: "k' \<noteq> k \<Longrightarrow> dict_get (AList.update k v data) k' d = dict_get data k' d"
  by (simp add: dict_get_def update_conv')

lemma dict_item_update: "k' \<noteq> k \<Longrightarrow> dict_item (AList.update k v data) k' = dict_item data k'"
  by (simp add: dict_item_def update_conv')

lemma DocumentChunk_from_dict_ignores:
  "DocumentChunk_from_dict lib now (AList.update ''length'' v data)
   = DocumentChunk_from_dict lib now data"
  "DocumentChunk_from_dict lib now (AList.update ''word_count'' v data)
   = DocumentChunk_from_dict lib now data"
  by (simp_all add: DocumentChunk_from_dict_def dict_get_update dict_item_update)

lemma SearchResult_from_dict_ignores:
  "SearchResult_from_dict lib now (AList.update ''relevance_level'' v data)
   = SearchResult_from_dict lib now data"
  "SearchResult_from_dict lib now (AList.update ''is_relevant'' v data)
   = SearchResult_from_dict lib now data"
  by (simp_all add: SearchResult_from_dict_def dict_get_update dict_item_update)

lemma WebSource_from_dict_ignores:
  "WebSource_from_dict lib (AList.update ''is_stale'' v data) = WebSource_from_dict lib data"
  "WebSource_from_dict lib (AList.update ''is_high_quality'' v data) = WebSource_from_dict lib data"
  "WebSource_from_dict lib (AList.update ''status_emoji'' v data) = WebSource_from_dict lib data"
  by (simp_all add: WebSource_from_dict_def dict_get_update dict_item_update)

lemma ConversationSession_from_dict_ignores:
  "ConversationSession_from_dict lib now (AList.update ''message_count'' v data)
   = ConversationSession_from_dict lib now data"
  "ConversationSession_from_dict lib now (AList.update ''total_tokens'' v data)
   = ConversationSession_from_dict lib now data"
  by (simp_all add: ConversationSession_from_dict_def dict_get_update dict_item_update)

section \<open>Staleness and aware datetimes\<close>

lemma is_stale_never_scraped: "last_scraped w = None \<Longrightarrow> is_stale now w = Inr True"
  by (simp add: is_stale_def)

lemma is_stale_naive:
  assumes "utcoffset now = None" and "last_scraped w = Some t" and "utcoffset t = None"
  shows "is_stale now w = Inr
     (let days = (microseconds_of now - microseconds_of t) div 86400000000
      in if scrape_frequency w = ''daily'' then 1 \<le> days
         else if scrape_frequency w = ''weekly'' then 7 \<le> days
         else if scrape_frequency w = ''monthly'' then 30 \<le> days
         else if scrape_frequency w = ''manual'' then False
         else 30 \<le> days)"
  using assms
  by (simp add: is_stale_def frequency_days_def datetime_sub_def timedelta_days_def
      and_then_def Let_def)

lemma is_stale_aware:
  assumes "utcoffset now = None" and "last_scraped w = Some t" and "utcoffset t \<noteq> None"
  shows "is_stale now w = Inl TypeError"
  using assms by (auto simp add: is_stale_def datetime_sub_def and_then_def)

lemma is_stale_naive_total:
  assumes "utcoffset now = None" and "\<forall>t. last_scraped w = Some t \<longrightarrow> utcoffset t = None"
  shows "\<exists>stale. is_stale now w = Inr stale"
proof (cases "last_scraped w")
  case None
  then have "is_stale now w = Inr True" by (rule is_stale_never_scraped)
  then show ?thesis ..
next
  case (Some t)
  with assms have "utcoffset t = None" by simp
  from is_stale_naive [OF assms(1) Some this] show ?thesis ..
qed

lemma WebSource_roundtrip_naive:
  assumes "utcoffset now = None"
    and "\<forall>t. last_scraped w = Some t \<longrightarrow> utcoffset t = None"
    and "\<forall>t. last_scraped w = Some t \<longrightarrow> lib_fromisoformat lib (isoformat t) = Some t"
  shows "and_then (WebSource_to_dict now w) (WebSource_from_dict lib) = Inr w"
proof -
  from is_stale_naive_total [OF assms(1,2)] obtain stale where "is_stale now w = Inr stale" ..
  then obtain d where d: "WebSource_to_dict now w = Inr d"
    by (simp add: WebSource_to_dict_def and_then_def)
  from WebSource_decode_encode [OF d assms(3)] show ?thesis
    by (simp add: d and_then_def)
qed

lemma WebSource_to_dict_aware:
  assumes "utcoffset now = None" and "last_scraped w = Some t" and "utcoffset t \<noteq> None"
  shows "WebSource_to_dict now w = Inl TypeError"
  by (simp add: WebSource_to_dict_def and_then_def is_stale_aware [OF assms])

lemma microseconds_of_example_later:
  "microseconds_of (example_later n) = microseconds_of example_time + int n * 86400000000"
  by (simp add: example_later_def example_time_def microseconds_of_def toordinal_def)

lemma utcoffset_example_time: "utcoffset example_time = None"
  by (simp add: example_time_def)

lemma utcoffset_example_later: "utcoffset (example_later n) = None"
  by (simp add: example_later_def example_time_def)

lemma utcoffset_example_aware_time: "utcoffset example_aware_time = Some 19800000000"
  by (simp add: example_aware_time_def)

lemma aware_source_is_stale: "is_stale example_time aware_source = Inl TypeError"
  by (rule is_stale_aware [where t = example_aware_time])
     (simp_all add: utcoffset_example_time utcoffset_example_aware_time aware_source_def)

lemma aware_record_decoded: "WebSource_from_dict example_lib aware_record = Inr aware_source"
proof -
  have "fromisoformat example_lib (PStr (isoformat example_aware_time)) = Inr example_aware_time"
    by (simp add: fromisoformat_inverse example_lib_inverse valid_example_aware_time)
  then show ?thesis
    by (simp add: WebSource_from_dict_def aware_record_def aware_source_def dict_get_def
        dict_item_def and_then_def isoformat_not_empty as_str_def as_float_def as_dict_def
        as_int_def)
qed

lemma mutated_chunk_decoded:
  "DocumentChunk_from_dict example_lib example_time (DocumentChunk_to_dict mutated_chunk)
   = Inr (DocumentChunk_post_init example_chunk)"
proof -
  have post: "DocumentChunk_post_init mutated_chunk = DocumentChunk_post_init example_chunk"
    by (simp add: mutated_chunk_def example_chunk_def DocumentChunk_post_init_def
        DocumentChunk_detect_document_type_def Let_def)
  have "DocumentChunk.created_at mutated_chunk = example_time"
    by (simp add: mutated_chunk_def DocumentChunk_post_init_created_at example_chunk_def)
  then have "lib_fromisoformat example_lib (isoformat (DocumentChunk.created_at mutated_chunk))
      = Some (DocumentChunk.created_at mutated_chunk)"
    by (simp add: example_lib_inverse valid_example_time)
  from DocumentChunk_decode_encode [OF this] show ?thesis
    by (simp add: post)
qed

lemma example_chunk_document_type:
  "DocumentChunk.document_type (DocumentChunk_post_init example_chunk) = PDF"
proof -
  have suffix: "PurePath_suffix ''docs/Guide.PDF'' = ''.PDF''"
    by (simp add: PurePath_suffix_def PurePath_name_def str_rfind_def)
  have lower: "py_lower ''.PDF'' = ''.pdf''"
    by code_simp
  show ?thesis
    by (simp add: example_chunk_def DocumentChunk_post_init_def
        DocumentChunk_detect_document_type_def detect_document_type_def
        detect_document_type_try_def Path_def and_then_def suffix lower type_mapping_def)
qed

section \<open>C1: decoding an encoded entity\<close>

text \<open>
  Claim C1 says that \<^verbatim>\<open>from_dict(to_dict(x))\<close> is \<open>x\<close> for every entity \<open>x\<close> of each of
  the five types. It fails for a web source whose \<^verbatim>\<open>last_scraped\<close> is aware, such as
  the one that \<^verbatim>\<open>WebSource.from_dict\<close> returns for a dictionary whose \<^verbatim>\<open>last_scraped\<close>
  carries an offset: \<^verbatim>\<open>to_dict\<close> reads \<^verbatim>\<open>is_stale\<close>, which subtracts the aware datetime
  from the naive \<^verbatim>\<open>datetime.now()\<close> and raises \<^verbatim>\<open>TypeError\<close>, so there is no dictionary
  to decode. It also fails for a chunk that was changed after its construction: the
  chunk of \<^verbatim>\<open>docs/Guide.PDF\<close> with its type set back to unknown is encoded with the type
  \<^verbatim>\<open>unknown\<close>, and the decoder detects the type again and returns a PDF chunk.
\<close>

theorem roundtrip_counterexample:
  "WebSource_from_dict example_lib aware_record = Inr aware_source \<and>
   WebSource_to_dict example_time aware_source = Inl TypeError \<and>
   DocumentChunk.document_type mutated_chunk = UNKNOWN \<and>
   DocumentChunk_from_dict example_lib example_time (DocumentChunk_to_dict mutated_chunk)
     = Inr (DocumentChunk_post_init example_chunk) \<and>
   DocumentChunk.document_type (DocumentChunk_post_init example_chunk) = PDF \<and>
   DocumentChunk_from_dict example_lib example_time (DocumentChunk_to_dict mutated_chunk)
     \<noteq> Inr mutated_chunk"
proof -
  have a: "WebSource_to_dict example_time aware_source = Inl TypeError"
    by (simp add: WebSource_to_dict_def and_then_def aware_source_is_stale)
  have b: "DocumentChunk.document_type mutated_chunk = UNKNOWN"
    by (simp add: mutated_chunk_def)
  have c: "DocumentChunk_from_dict example_lib example_time (DocumentChunk_to_dict mutated_chunk)
     \<noteq> Inr mutated_chunk"
  proof
    assume "DocumentChunk_from_dict example_lib example_time (DocumentChunk_to_dict mutated_chunk)
       = Inr mutated_chunk"
    then have "DocumentChunk_post_init example_chunk = mutated_chunk"
      by (simp add: mutated_chunk_decoded)
    then have "DocumentChunk.document_type (DocumentChunk_post_init example_chunk)
       = DocumentChunk.document_type mutated_chunk"
      by simp
    then show False
      by (simp add: example_chunk_document_type b)
  qed
  show ?thesis
    by (intro conjI aware_record_decoded a b mutated_chunk_decoded example_chunk_document_type c)
qed

text \<open>
  Claim C1, amended. Let \<^verbatim>\<open>fromisoformat\<close> invert \<^verbatim>\<open>isoformat\<close> on the timestamps of the
  entity, and let the clock be naive, as \<^verbatim>\<open>datetime.now()\<close> is.
  \<^item> For every chunk and every message, \<^verbatim>\<open>from_dict(to_dict(x))\<close> is \<open>x\<close> as
    \<^verbatim>\<open>__post_init__\<close> leaves it; so it is \<open>x\<close>, on all fields, for every chunk and every
    message that a constructor or a decoder returned and that was not changed since.
  \<^item> For every search result, \<^verbatim>\<open>from_dict(to_dict(x))\<close> is \<open>x\<close>.
  \<^item> For every web source whose \<^verbatim>\<open>last_scraped\<close> is unset or naive, \<^verbatim>\<open>to_dict\<close> returns
    and \<^verbatim>\<open>from_dict(to_dict(x))\<close> is \<open>x\<close>; when \<^verbatim>\<open>last_scraped\<close> is aware, \<^verbatim>\<open>to_dict\<close>
    raises \<^verbatim>\<open>TypeError\<close>.
  \<^item> For every session, \<^verbatim>\<open>from_dict(to_dict(x))\<close> is \<open>x\<close> with each message as
    \<^verbatim>\<open>__post_init__\<close> leaves it; so it is \<open>x\<close> when each message is as its constructor left
    it.
  \<^item> The derived entries that \<^verbatim>\<open>to_dict\<close> adds (\<^verbatim>\<open>length\<close>, \<^verbatim>\<open>word_count\<close>,
    \<^verbatim>\<open>relevance_level\<close>, \<^verbatim>\<open>is_relevant\<close>, \<^verbatim>\<open>is_stale\<close>, \<^verbatim>\<open>is_high_quality\<close>,
    \<^verbatim>\<open>status_emoji\<close>, \<^verbatim>\<open>message_count\<close>, \<^verbatim>\<open>total_tokens\<close>) are never read: setting any
    of them to any value in any dictionary leaves the decoder's result as it was.
\<close>

theorem from_dict_to_dict_roundtrip:
  assumes "lib_fromisoformat lib (isoformat (DocumentChunk.created_at c))
             = Some (DocumentChunk.created_at c)"
    and "lib_fromisoformat lib (isoformat (ConversationMessage.timestamp m))
             = Some (ConversationMessage.timestamp m)"
    and "lib_fromisoformat lib (isoformat (SearchResult.timestamp r))
             = Some (SearchResult.timestamp r)"
    and "\<forall>t. last_scraped w = Some t \<longrightarrow> lib_fromisoformat lib (isoformat t) = Some t"
    and "lib_fromisoformat lib (isoformat (ConversationSession.created_at s))
             = Some (ConversationSession.created_at s)"
    and "lib_fromisoformat lib (isoformat (last_activity s)) = Some (last_activity s)"
    and "\<forall>msg \<in> set (messages s).
           lib_fromisoformat lib (isoformat (ConversationMessage.timestamp msg))
             = Some (ConversationMessage.timestamp msg)"
    and "utcoffset now = None"
  shows
    "DocumentChunk_from_dict lib now (DocumentChunk_to_dict c)
       = Inr (DocumentChunk_post_init c) \<and>
     DocumentChunk_from_dict lib now (DocumentChunk_to_dict (DocumentChunk_post_init c))
       = Inr (DocumentChunk_post_init c) \<and>
     ConversationMessage_from_dict lib now (ConversationMessage_to_dict m)
       = Inr (ConversationMessage_post_init lib m) \<and>
     ConversationMessage_from_dict lib now
        (ConversationMessage_to_dict (ConversationMessage_post_init lib m))
       = Inr (ConversationMessage_post_init lib m) \<and>
     SearchResult_from_dict lib now (SearchResult_to_dict r) = Inr r \<and>
     ((\<forall>t. last_scraped w = Some t \<longrightarrow> utcoffset t = None) \<longrightarrow>
        and_then (WebSource_to_dict now w) (WebSource_from_dict lib) = Inr w) \<and>
     ((\<exists>t. last_scraped w = Some t \<and> utcoffset t \<noteq> None) \<longrightarrow>
        WebSource_to_dict now w = Inl TypeError) \<and>
     ConversationSession_from_dict lib now (ConversationSession_to_dict s)
       = Inr (s\<lparr>messages := map (ConversationMessage_post_init lib) (messages s)\<rparr>) \<and>
     ((\<forall>msg \<in> set (messages s). ConversationMessage_post_init lib msg = msg) \<longrightarrow>
        ConversationSession_from_dict lib now (ConversationSession_to_dict s) = Inr s) \<and>
     DocumentChunk_from_dict lib now (AList.update ''length'' v data)
       = DocumentChunk_from_dict lib now data \<and>
     DocumentChunk_from_dict lib now (AList.update ''word_count'' v data)
       = DocumentChunk_from_dict lib now data \<and>
     SearchResult_from_dict lib now (AList.update ''relevance_level'' v data)
       = SearchResult_from_dict lib now data \<and>
     SearchResult_from_dict lib now (AList.update ''is_relevant'' v data)
       = SearchResult_from_dict lib now data \<and>
     WebSource_from_dict lib (AList.update ''is_stale'' v data) = WebSource_from_dict lib data \<and>
     WebSource_from_dict lib (AList.update ''is_high_quality'' v data)
       = WebSource_from_dict lib data \<and>
     WebSource_from_dict lib (AList.update ''status_emoji'' v data)
       = WebSource_from_dict lib data \<and>
     ConversationSession_from_dict lib now (AList.update ''message_count'' v data)
       = ConversationSession_from_dict lib now data \<and>
     ConversationSession_from_dict lib now (AList.update ''total_tokens'' v data)
       = ConversationSession_from_dict lib now data"
proof -
  have chunk: "DocumentChunk_from_dict lib now (DocumentChunk_to_dict c)
       = Inr (DocumentChunk_post_init c)"
    using assms(1) by (rule DocumentChunk_decode_encode)
  have chunk': "DocumentChunk_from_dict lib now (DocumentChunk_to_dict (DocumentChunk_post_init c))
       = Inr (DocumentChunk_post_init c)"
    using assms(1)
    by (simp add: DocumentChunk_decode_encode DocumentChunk_post_init_created_at
        DocumentChunk_post_init_idem)
  have message: "ConversationMessage_from_dict lib now (ConversationMessage_to_dict m)
       = Inr (ConversationMessage_post_init lib m)"
    using assms(2) by (rule ConversationMessage_decode_encode)
  have message': "ConversationMessage_from_dict lib now
       (ConversationMessage_to_dict (ConversationMessage_post_init lib m))
       = Inr (ConversationMessage_post_init lib m)"
    using assms(2)
    by (simp add: ConversationMessage_decode_encode ConversationMessage_post_init_timestamp
        ConversationMessage_post_init_idem)
  have result: "SearchResult_from_dict lib now (SearchResult_to_dict r) = Inr r"
    using assms(3) by (rule SearchResult_decode_encode)
  have naive: "(\<forall>t. last_scraped w = Some t \<longrightarrow> utcoffset t = None) \<longrightarrow>
        and_then (WebSource_to_dict now w) (WebSource_from_dict lib) = Inr w"
    using assms(4,8) by (simp add: WebSource_roundtrip_naive)
  have aware: "(\<exists>t. last_scraped w = Some t \<and> utcoffset t \<noteq> None) \<longrightarrow>
        WebSource_to_dict now w = Inl TypeError"
    using assms(8) WebSource_to_dict_aware [of now w] by blast
  have session: "ConversationSession_from_dict lib now (ConversationSession_to_dict s)
       = Inr (s\<lparr>messages := map (ConversationMessage_post_init lib) (messages s)\<rparr>)"
    using assms(5,6,7) by (rule ConversationSession_decode_encode)
  have session': "(\<forall>msg \<in> set (messages s). ConversationMessage_post_init lib msg = msg) \<longrightarrow>
        ConversationSession_from_dict lib now (ConversationSession_to_dict s) = Inr s"
  proof
    assume "\<forall>msg \<in> set (messages s). ConversationMessage_post_init lib msg = msg"
    then have "map (ConversationMessage_post_init lib) (messages s) = messages s"
      by (simp add: map_idI)
    with session show "ConversationSession_from_dict lib now (ConversationSession_to_dict s) = Inr s"
      by simp
  qed
  show ?thesis
    by (intro conjI chunk chunk' message message' result naive aware session session'
        DocumentChunk_from_dict_ignores SearchResult_from_dict_ignores
        WebSource_from_dict_ignores ConversationSession_from_dict_ignores)
qed

theorem from_dict_to_dict_roundtrip_witness:
  "lib_fromisoformat example_lib (isoformat example_time) = Some example_time \<and>
   lib_fromisoformat example_lib (isoformat example_aware_time) = Some example_aware_time \<and>
   utcoffset example_time = None \<and>
   DocumentChunk_from_dict example_lib example_time
      (DocumentChunk_to_dict (DocumentChunk_post_init example_chunk))
     = Inr (DocumentChunk_post_init example_chunk) \<and>
   ConversationMessage_from_dict example_lib example_time
      (ConversationMessage_to_dict (ConversationMessage_post_init example_lib (example_message ''one'')))
     = Inr (ConversationMessage_post_init example_lib (example_message ''one'')) \<and>
   SearchResult_from_dict example_lib example_time (SearchResult_to_dict example_result)
     = Inr example_result \<and>
   and_then (WebSource_to_dict example_time example_source) (WebSource_from_dict example_lib)
     = Inr example_source \<and>
   WebSource_to_dict example_time aware_source = Inl TypeError \<and>
   ConversationSession_from_dict example_lib example_time
      (ConversationSession_to_dict example_session)
     = Inr example_session \<and>
   DocumentChunk_from_dict example_lib example_time
      (AList.update ''length'' (PInt 0)
         (DocumentChunk_to_dict (DocumentChunk_post_init example_chunk)))
     = Inr (DocumentChunk_post_init example_chunk)"
proof -
  have v: "lib_fromisoformat example_lib (isoformat example_time) = Some example_time"
    by (simp add: example_lib_inverse valid_example_time)
  have v': "lib_fromisoformat example_lib (isoformat example_aware_time) = Some example_aware_time"
    by (simp add: example_lib_inverse valid_example_aware_time)
  have n: "utcoffset example_time = None"
    by (rule utcoffset_example_time)
  have h1: "lib_fromisoformat example_lib (isoformat (DocumentChunk.created_at example_chunk))
      = Some (DocumentChunk.created_at example_chunk)"
    using v by (simp add: example_chunk_def)
  have h2: "lib_fromisoformat example_lib
      (isoformat (ConversationMessage.timestamp (example_message ''one'')))
      = Some (ConversationMessage.timestamp (example_message ''one''))"
    using v by (simp add: example_message_def)
  have h3: "lib_fromisoformat example_lib (isoformat (SearchResult.timestamp example_result))
      = Some (SearchResult.timestamp example_result)"
    using v by (simp add: example_result_def)
  have h4: "\<forall>t. last_scraped example_source = Some t \<longrightarrow>
      lib_fromisoformat example_lib (isoformat t) = Some t"
    using v by (simp add: example_source_def)
  have h4': "\<forall>t. last_scraped aware_source = Some t \<longrightarrow>
      lib_fromisoformat example_lib (isoformat t) = Some t"
    using v' by (simp add: aware_source_def)
  have h5: "lib_fromisoformat example_lib (isoformat (ConversationSession.created_at example_session))
      = Some (ConversationSession.created_at example_session)"
    using v by (simp add: example_session_def)
  have h6: "lib_fromisoformat example_lib (isoformat (last_activity example_session))
      = Some (last_activity example_session)"
    using v by (simp add: example_session_def)
  have h7: "\<forall>msg \<in> set (messages example_session).
      lib_fromisoformat example_lib (isoformat (ConversationMessage.timestamp msg))
        = Some (ConversationMessage.timestamp msg)"
    using v
    by (simp add: example_session_def ConversationMessage_post_init_timestamp example_message_def)
  have naive: "\<forall>t. last_scraped example_source = Some t \<longrightarrow> utcoffset t = None"
    by (simp add: example_source_def utcoffset_example_time)
  have aware: "\<exists>t. last_scraped aware_source = Some t \<and> utcoffset t \<noteq> None"
    by (simp add: aware_source_def utcoffset_example_aware_time)
  have fixed: "\<forall>msg \<in> set (messages example_session).
      ConversationMessage_post_init example_lib msg = msg"
    by (simp add: example_session_def ConversationMessage_post_init_idem)
  note rt = from_dict_to_dict_roundtrip [OF h1 h2 h3 h4 h5 h6 h7 n, of "PInt 0"
      "DocumentChunk_to_dict (DocumentChunk_post_init example_chunk)"]
  note rt' = from_dict_to_dict_roundtrip [OF h1 h2 h3 h4' h5 h6 h7 n, of "PInt 0"
      "DocumentChunk_to_dict (DocumentChunk_post_init example_chunk)"]
  have c1: "DocumentChunk_from_dict example_lib example_time
      (DocumentChunk_to_dict (DocumentChunk_post_init example_chunk))
     = Inr (DocumentChunk_post_init example_chunk)"
    using rt [THEN conjunct2, THEN conjunct1] .
  have c2: "ConversationMessage_from_dict example_lib example_time
      (ConversationMessage_to_dict (ConversationMessage_post_init example_lib (example_message ''one'')))
     = Inr (ConversationMessage_post_init example_lib (example_message ''one''))"
    using rt [THEN conjunct2, THEN conjunct2, THEN conjunct2, THEN conjunct1] .
  have c3: "SearchResult_from_dict example_lib example_time (SearchResult_to_dict example_result)
     = Inr example_result"
    using rt [THEN conjunct2, THEN conjunct2, THEN conjunct2, THEN conjunct2, THEN conjunct1] .
  have c4: "and_then (WebSource_to_dict example_time example_source) (WebSource_from_dict example_lib)
     = Inr example_source"
    using naive rt [THEN conjunct2, THEN conjunct2, THEN conjunct2, THEN conjunct2,
        THEN conjunct2, THEN conjunct1]
    by blast
  have c5: "WebSource_to_dict example_time aware_source = Inl TypeError"
    using aware rt' [THEN conjunct2, THEN conjunct2, THEN conjunct2, THEN conjunct2,
        THEN conjunct2, THEN conjunct2, THEN conjunct1]
    by blast
  have c6: "ConversationSession_from_dict example_lib example_time
      (ConversationSession_to_dict example_session) = Inr example_session"
    using fixed rt [THEN conjunct2, THEN conjunct2, THEN conjunct2, THEN conjunct2,
        THEN conjunct2, THEN conjunct2, THEN conjunct2, THEN conjunct2, THEN conjunct1]
    by blast
  have c7: "DocumentChunk_from_dict example_lib example_time
      (AList.update ''length'' (PInt 0)
         (DocumentChunk_to_dict (DocumentChunk_post_init example_chunk)))
     = Inr (DocumentChunk_post_init example_chunk)"
    using c1 rt [THEN conjunct2, THEN conjunct2, THEN conjunct2, THEN conjunct2,
        THEN conjunct2, THEN conjunct2, THEN conjunct2, THEN conjunct2, THEN conjunct2,
        THEN conjunct1]
    by simp
  show ?thesis
    by (intro conjI v v' n c1 c2 c3 c4 c5 c6 c7)
qed

section \<open>C2: staleness of a web source\<close>

text \<open>
  Claim C2 gives \<^verbatim>\<open>is_stale\<close> a truth value for every web source. For a source whose
  \<^verbatim>\<open>last_scraped\<close> is aware it has none: the property subtracts \<^verbatim>\<open>last_scraped\<close> from
  the naive \<^verbatim>\<open>datetime.now()\<close>, and the difference of a naive and an aware datetime
  raises \<^verbatim>\<open>TypeError\<close>.
\<close>

theorem is_stale_aware_counterexample:
  "last_scraped aware_source = Some example_aware_time \<and>
   utcoffset example_aware_time = Some 19800000000 \<and>
   utcoffset example_time = None \<and>
   is_stale example_time aware_source = Inl TypeError"
proof -
  have "last_scraped aware_source = Some example_aware_time"
    by (simp add: aware_source_def)
  then show ?thesis
    by (simp add: utcoffset_example_aware_time utcoffset_example_time aware_source_is_stale)
qed

text \<open>
  Claim C2, amended. With the naive clock of \<^verbatim>\<open>datetime.now()\<close>: a source that was never
  scraped is stale. One whose \<^verbatim>\<open>last_scraped\<close> is naive is stale exactly when the number
  of whole days from \<^verbatim>\<open>last_scraped\<close> to now reaches the threshold of its frequency: 1
  for daily, 7 for weekly, 30 for monthly, never for manual, and 30 for every other
  frequency string. A weekly source scraped exactly seven days ago is stale; one scraped
  exactly six days ago is not. For a source whose \<^verbatim>\<open>last_scraped\<close> is aware, \<^verbatim>\<open>is_stale\<close>
  raises \<^verbatim>\<open>TypeError\<close>.
\<close>

theorem is_stale_policy:
  assumes "utcoffset now = None"
  shows
  "(last_scraped w = None \<longrightarrow> is_stale now w = Inr True) \<and>
   (last_scraped w = Some t \<and> utcoffset t = None \<longrightarrow>
      is_stale now w = Inr
        (let days = (microseconds_of now - microseconds_of t) div 86400000000
         in if scrape_frequency w = ''daily'' then 1 \<le> days
            else if scrape_frequency w = ''weekly'' then 7 \<le> days
            else if scrape_frequency w = ''monthly'' then 30 \<le> days
            else if scrape_frequency w = ''manual'' then False
            else 30 \<le> days)) \<and>
   (last_scraped w = Some t \<and> utcoffset t = None \<and> scrape_frequency w = ''weekly'' \<and>
      microseconds_of now - microseconds_of t = 7 * 86400000000 \<longrightarrow>
        is_stale now w = Inr True) \<and>
   (last_scraped w = Some t \<and> utcoffset t = None \<and> scrape_frequency w = ''weekly'' \<and>
      microseconds_of now - microseconds_of t = 6 * 86400000000 \<longrightarrow>
        is_stale now w = Inr False) \<and>
   (last_scraped w = Some t \<and> utcoffset t \<noteq> None \<longrightarrow> is_stale now w = Inl TypeError)"
proof (intro conjI impI)
  assume "last_scraped w = None"
  then show "is_stale now w = Inr True" by (rule is_stale_never_scraped)
next
  assume "last_scraped w = Some t \<and> utcoffset t = None"
  then have "last_scraped w = Some t" and "utcoffset t = None"
    by simp_all
  with assms show "is_stale now w = Inr
        (let days = (microseconds_of now - microseconds_of t) div 86400000000
         in if scrape_frequency w = ''daily'' then 1 \<le> days
            else if scrape_frequency w = ''weekly'' then 7 \<le> days
            else if scrape_frequency w = ''monthly'' then 30 \<le> days
            else if scrape_frequency w = ''manual'' then False
            else 30 \<le> days)"
    by (rule is_stale_naive)
next
  assume "last_scraped w = Some t \<and> utcoffset t = None \<and> scrape_frequency w = ''weekly'' \<and>
      microseconds_of now - microseconds_of t = 7 * 86400000000"
  then show "is_stale now w = Inr True"
    using assms by (simp add: is_stale_naive)
next
  assume "last_scraped w = Some t \<and> utcoffset t = None \<and> scrape_frequency w = ''weekly'' \<and>
      microseconds_of now - microseconds_of t = 6 * 86400000000"
  then show "is_stale now w = Inr False"
    using assms by (simp add: is_stale_naive)
next
  assume "last_scraped w = Some t \<and> utcoffset t \<noteq> None"
  then have "last_scraped w = Some t" and "utcoffset t \<noteq> None"
    by simp_all
  with assms show "is_stale now w = Inl TypeError"
    by (rule is_stale_aware)
qed

theorem is_stale_policy_witness:
  "utcoffset (example_later 7) = None \<and>
   utcoffset (example_later 6) = None \<and>
   utcoffset example_time = None \<and>
   last_scraped example_source = Some example_time \<and>
   scrape_frequency example_source = ''weekly'' \<and>
   microseconds_of (example_later 7) - microseconds_of example_time = 7 * 86400000000 \<and>
   microseconds_of (example_later 6) - microseconds_of example_time = 6 * 86400000000 \<and>
   is_stale (example_later 7) example_source = Inr True \<and>
   is_stale (example_later 6) example_source = Inr False \<and>
   last_scraped (example_source\<lparr>last_scraped := None\<rparr>) = None \<and>
   is_stale example_time (example_source\<lparr>last_scraped := None\<rparr>) = Inr True \<and>
   last_scraped aware_source = Some example_aware_time \<and>
   utcoffset example_aware_time \<noteq> None \<and>
   is_stale example_time aware_source = Inl TypeError"
proof -
  have n7: "utcoffset (example_later 7) = None" and n6: "utcoffset (example_later 6) = None"
    by (rule utcoffset_example_later)+
  have n: "utcoffset example_time = None"
    by (rule utcoffset_example_time)
  have a: "last_scraped example_source = Some example_time"
    and b: "scrape_frequency example_source = ''weekly''"
    by (simp_all add: example_source_def)
  have c: "microseconds_of (example_later 7) - microseconds_of example_time = 7 * 86400000000"
    and d: "microseconds_of (example_later 6) - microseconds_of example_time = 6 * 86400000000"
    by (simp_all add: microseconds_of_example_later)
  have e: "last_scraped (example_source\<lparr>last_scraped := None\<rparr>) = None"
    by simp
  have f: "last_scraped aware_source = Some example_aware_time"
    by (simp add: aware_source_def)
  have g: "utcoffset example_aware_time \<noteq> None"
    by (simp add: utcoffset_example_aware_time)
  have r7: "is_stale (example_later 7) example_source = Inr True"
    using a b c n is_stale_policy [OF n7, of example_source example_time,
        THEN conjunct2, THEN conjunct2, THEN conjunct1]
    by blast
  have r6: "is_stale (example_later 6) example_source = Inr False"
    using a b d n is_stale_policy [OF n6, of example_source example_time,
        THEN conjunct2, THEN conjunct2, THEN conjunct2, THEN conjunct1]
    by blast
  have r0: "is_stale example_time (example_source\<lparr>last_scraped := None\<rparr>) = Inr True"
    using e is_stale_policy [OF n, of "example_source\<lparr>last_scraped := None\<rparr>" example_time,
        THEN conjunct1]
    by blast
  have ra: "is_stale example_time aware_source = Inl TypeError"
    using f g is_stale_policy [OF n, of aware_source example_aware_time,
        THEN conjunct2, THEN conjunct2, THEN conjunct2, THEN conjunct2]
    by blast
  show ?thesis
    by (intro conjI n7 n6 n a b c d r7 r6 e r0 f g ra)
qed

section \<open>C3: relevance tiers\<close>

text \<open>
  Claim C3. \<^verbatim>\<open>relevance_level\<close> is Very High exactly for a score of at least 0.9, High
  exactly for 0.8 up to 0.9, Medium exactly for 0.7 up to 0.8, Low exactly for 0.5 up to
  0.7, and Very Low for every score below 0.5 (and for NaN, which no comparison
  accepts); \<^verbatim>\<open>is_relevant\<close> holds exactly for a score of at least 0.7. No range check is
  made: the statement is about every float. The scores 0.9, 0.8999, 0.8, 0.7, 0.69, 0.5,
  0.49 give Very High, High, High, Medium, Low, Low, Very Low.
\<close>

theorem relevance_tiers:
  "(relevance_level r = ''Very High'') = float_ge (score r) 0.9 \<and>
   (relevance_level r = ''High'') = (float_ge (score r) 0.8 \<and> float_lt (score r) 0.9) \<and>
   (relevance_level r = ''Medium'') = (float_ge (score r) 0.7 \<and> float_lt (score r) 0.8) \<and>
   (relevance_level r = ''Low'') = (float_ge (score r) 0.5 \<and> float_lt (score r) 0.7) \<and>
   (relevance_level r = ''Very Low'') = (float_lt (score r) 0.5 \<or> score r = NaN) \<and>
   is_relevant r = float_ge (score r) 0.7 \<and>
   map (\<lambda>x. relevance_level (r\<lparr>score := Finite x\<rparr>)) [0.9, 0.8999, 0.8, 0.7, 0.69, 0.5, 0.49]
     = [''Very High'', ''High'', ''High'', ''Medium'', ''Low'', ''Low'', ''Very Low''] \<and>
   map (\<lambda>x. is_relevant (r\<lparr>score := Finite x\<rparr>)) [0.9, 0.8999, 0.8, 0.7, 0.69, 0.5, 0.49]
     = [True, True, True, True, False, False, False] \<and>
   relevance_level (r\<lparr>score := Finite 1.5\<rparr>) = ''Very High'' \<and>
   relevance_level (r\<lparr>score := Finite (- 0.25)\<rparr>) = ''Very Low''"
proof -
  have tiers: "(relevance_level r = ''Very High'') = float_ge (score r) 0.9 \<and>
   (relevance_level r = ''High'') = (float_ge (score r) 0.8 \<and> float_lt (score r) 0.9) \<and>
   (relevance_level r = ''Medium'') = (float_ge (score r) 0.7 \<and> float_lt (score r) 0.8) \<and>
   (relevance_level r = ''Low'') = (float_ge (score r) 0.5 \<and> float_lt (score r) 0.7) \<and>
   (relevance_level r = ''Very Low'') = (float_lt (score r) 0.5 \<or> score r = NaN)"
    by (cases "score r") (auto simp add: relevance_level_def)
  have samples: "map (\<lambda>x. relevance_level (r\<lparr>score := Finite x\<rparr>)) [0.9, 0.8999, 0.8, 0.7, 0.69, 0.5, 0.49]
     = [''Very High'', ''High'', ''High'', ''Medium'', ''Low'', ''Low'', ''Very Low''] \<and>
   map (\<lambda>x. is_relevant (r\<lparr>score := Finite x\<rparr>)) [0.9, 0.8999, 0.8, 0.7, 0.69, 0.5, 0.49]
     = [True, True, True, True, False, False, False] \<and>
   relevance_level (r\<lparr>score := Finite 1.5\<rparr>) = ''Very High'' \<and>
   relevance_level (r\<lparr>score := Finite (- 0.25)\<rparr>) = ''Very Low''"
    by (simp add: relevance_level_def is_relevant_def)
  show ?thesis
    using tiers samples by (simp only: is_relevant_def simp_thms)
qed

section \<open>C4: the end offset of a chunk\<close>

text \<open>
  Claim C4 says that a chunk constructed with \<^verbatim>\<open>end_char\<close> left at 0 has
  \<^verbatim>\<open>end_char = start_char + len(content)\<close> for every content. The guard of
  \<^verbatim>\<open>__post_init__\<close> is \<^verbatim>\<open>not self.end_char and self.content\<close>: with empty content the
  offset is not set. The chunk \<open>empty_chunk\<close> starts at 5, has no content, and keeps 0.
\<close>

theorem end_char_empty_content_counterexample:
  "end_char empty_chunk = 0 \<and> 0 \<le> start_char empty_chunk \<and>
   end_char (DocumentChunk_post_init empty_chunk)
     \<noteq> start_char empty_chunk + int (length (DocumentChunk.content empty_chunk))"
  by (simp add: empty_chunk_def DocumentChunk_post_init_def
      DocumentChunk_detect_document_type_def Let_def)

text \<open>
  Claim C4, amended. With \<^verbatim>\<open>end_char\<close> left at 0, construction sets it to
  \<^verbatim>\<open>start_char + len(content)\<close> when the content is not empty and leaves it at 0 when
  the content is empty; an \<^verbatim>\<open>end_char\<close> other than 0 is kept.
\<close>

theorem end_char_backfill:
  "(end_char c = 0 \<and> DocumentChunk.content c \<noteq> [] \<longrightarrow>
      end_char (DocumentChunk_post_init c)
        = start_char c + int (length (DocumentChunk.content c))) \<and>
   (end_char c = 0 \<and> DocumentChunk.content c = [] \<longrightarrow>
      end_char (DocumentChunk_post_init c) = 0) \<and>
   (end_char c \<noteq> 0 \<longrightarrow> end_char (DocumentChunk_post_init c) = end_char c)"
  by (simp add: DocumentChunk_post_init_def DocumentChunk_detect_document_type_def Let_def)

theorem end_char_backfill_witness:
  "end_char example_chunk = 0 \<and> DocumentChunk.content example_chunk \<noteq> [] \<and>
   end_char (DocumentChunk_post_init example_chunk) = 21 \<and>
   end_char empty_chunk = 0 \<and> DocumentChunk.content empty_chunk = [] \<and>
   end_char (DocumentChunk_post_init empty_chunk) = 0 \<and>
   end_char (example_chunk\<lparr>end_char := 99\<rparr>) \<noteq> 0 \<and>
   end_char (DocumentChunk_post_init (example_chunk\<lparr>end_char := 99\<rparr>)) = 99"
proof -
  have a: "end_char example_chunk = 0 \<and> DocumentChunk.content example_chunk \<noteq> []"
    and l: "start_char example_chunk + int (length (DocumentChunk.content example_chunk)) = 21"
    by (simp_all add: example_chunk_def)
  have b: "end_char empty_chunk = 0 \<and> DocumentChunk.content empty_chunk = []"
    by (simp add: empty_chunk_def)
  have c: "end_char (example_chunk\<lparr>end_char := 99\<rparr>) \<noteq> 0" "end_char (example_chunk\<lparr>end_char := 99\<rparr>) = 99"
    by simp_all
  show ?thesis
    using a l b c end_char_backfill [of example_chunk] end_char_backfill [of empty_chunk]
      end_char_backfill [of "example_chunk\<lparr>end_char := 99\<rparr>"]
    by metis
qed

section \<open>C5: the effect of the two mutators\<close>

text \<open>
  Claim C5. \<^verbatim>\<open>mark_scraped\<close> sets the status to \<^verbatim>\<open>scraped\<close>, stores content, title and
  quality score, stamps \<^verbatim>\<open>last_scraped\<close> with the clock and empties the error message;
  \<^verbatim>\<open>mark_failed\<close> sets the status to \<^verbatim>\<open>failed\<close>, stores the error message, stamps
  \<^verbatim>\<open>last_scraped\<close> and keeps content, title and quality score. Both keep the url, the
  frequency, the content type, the metadata and the chunk count.
\<close>

theorem mark_scraped_mark_failed_effect:
  "status (mark_scraped now c t q w) = ''scraped'' \<and>
   WebSource.content (mark_scraped now c t q w) = c \<and>
   title (mark_scraped now c t q w) = t \<and>
   quality_score (mark_scraped now c t q w) = q \<and>
   last_scraped (mark_scraped now c t q w) = Some now \<and>
   error_message (mark_scraped now c t q w) = [] \<and>
   url (mark_scraped now c t q w) = url w \<and>
   scrape_frequency (mark_scraped now c t q w) = scrape_frequency w \<and>
   content_type (mark_scraped now c t q w) = content_type w \<and>
   WebSource.metadata (mark_scraped now c t q w) = WebSource.metadata w \<and>
   chunk_count (mark_scraped now c t q w) = chunk_count w \<and>
   status (mark_failed now e w) = ''failed'' \<and>
   error_message (mark_failed now e w) = e \<and>
   last_scraped (mark_failed now e w) = Some now \<and>
   WebSource.content (mark_failed now e w) = WebSource.content w \<and>
   title (mark_failed now e w) = title w \<and>
   quality_score (mark_failed now e w) = quality_score w \<and>
   url (mark_failed now e w) = url w \<and>
   scrape_frequency (mark_failed now e w) = scrape_frequency w \<and>
   content_type (mark_failed now e w) = content_type w \<and>
   WebSource.metadata (mark_failed now e w) = WebSource.metadata w \<and>
   chunk_count (mark_failed now e w) = chunk_count w"
  by (simp add: mark_scraped_def mark_failed_def)

section \<open>C6: the mutators do not look at the status\<close>

text \<open>
  Claim C6. Neither mutator has a failing branch (its result is a source, not an
  error), and neither reads the status it overwrites: the result is the same from every
  status. From \<^verbatim>\<open>excluded\<close> the status becomes \<^verbatim>\<open>scraped\<close> or \<^verbatim>\<open>failed\<close>.
\<close>

theorem mark_scraped_mark_failed_ignore_status:
  "mark_scraped now c t q (w\<lparr>status := st\<rparr>) = mark_scraped now c t q w \<and>
   mark_failed now e (w\<lparr>status := st\<rparr>) = mark_failed now e w \<and>
   status (mark_scraped now c t q (w\<lparr>status := ''excluded''\<rparr>)) = ''scraped'' \<and>
   status (mark_failed now e (w\<lparr>status := ''excluded''\<rparr>)) = ''failed''"
  by (simp add: mark_scraped_def mark_failed_def)

section \<open>C7: the window of recent messages\<close>

text \<open>
  Claim C7 says that \<^verbatim>\<open>get_recent_messages(count)\<close> returns the last \<open>count\<close> messages
  for every count. For a count of 0 the slice \<^verbatim>\<open>messages[-0:]\<close> is the whole list: the
  code returns every message where the claim says none. The session \<open>example_session\<close>
  has three messages.
\<close>

theorem get_recent_messages_zero:
  "get_recent_messages s 0 = messages s \<and>
   length (get_recent_messages example_session 0) = 3"
  by (simp add: get_recent_messages_def slice_from_def example_session_def)

text \<open>For a positive count the window is the last \<open>count\<close> messages, in order, and the
  whole list when there are no more than \<open>count\<close>.\<close>

lemma get_recent_messages_positive:
  assumes "0 < count"
  shows "get_recent_messages s count = drop (length (messages s) - nat count) (messages s)"
proof (cases "int (length (messages s)) > count")
  case True
  then have "nat (int (length (messages s)) - count) = length (messages s) - nat count"
    using assms by linarith
  with True assms show ?thesis
    by (simp add: get_recent_messages_def slice_from_def Let_def add.commute)
next
  case False
  then have "length (messages s) - nat count = 0"
    using assms by linarith
  with False show ?thesis
    by (simp add: get_recent_messages_def)
qed

section \<open>C8: the document type of a path\<close>

lemma detect_document_type_str:
  "detect_document_type (PStr p) =
     (case map_of type_mapping (py_lower (PurePath_suffix p)) of None \<Rightarrow> UNKNOWN | Some t \<Rightarrow> t)"
  by (simp add: detect_document_type_def detect_document_type_try_def Path_def and_then_def)

lemma PurePath_suffix_Nil: "PurePath_suffix [] = []"
  by (simp add: PurePath_suffix_def PurePath_name_def str_rfind_def)

text \<open>
  Claim C8. The detected type of a path is a function of its extension alone (the suffix
  of its name, in lower case): \<^verbatim>\<open>.pdf\<close> gives pdf, \<^verbatim>\<open>.docx\<close> docx, \<^verbatim>\<open>.md\<close> markdown,
  \<^verbatim>\<open>.txt\<close> text, \<^verbatim>\<open>.html\<close> and \<^verbatim>\<open>.htm\<close> web, and every other extension, no
  extension, and a value on which the body of the \<^verbatim>\<open>try\<close> raises give unknown. The
  operation has no failing outcome: its result is a document type for every value, and
  on a chunk it changes the document type only.
\<close>

theorem detect_document_type_by_extension:
  "detect_document_type (PStr p) =
     (let e = py_lower (PurePath_suffix p)
      in if e = ''.pdf'' then PDF else if e = ''.docx'' then DOCX
         else if e = ''.md'' then MD else if e = ''.txt'' then TXT
         else if e = ''.html'' then WEB else if e = ''.htm'' then WEB else UNKNOWN) \<and>
   (py_lower (PurePath_suffix p) = py_lower (PurePath_suffix q) \<longrightarrow>
      detect_document_type (PStr p) = detect_document_type (PStr q)) \<and>
   (PurePath_suffix p = [] \<longrightarrow> detect_document_type (PStr p) = UNKNOWN) \<and>
   (detect_document_type_try v = Inl err \<longrightarrow> detect_document_type v = UNKNOWN) \<and>
   DocumentChunk_detect_document_type c
     = c\<lparr>DocumentChunk.document_type := detect_document_type (PStr (source_file c))\<rparr>"
proof (intro conjI impI)
  show "detect_document_type (PStr p) =
     (let e = py_lower (PurePath_suffix p)
      in if e = ''.pdf'' then PDF else if e = ''.docx'' then DOCX
         else if e = ''.md'' then MD else if e = ''.txt'' then TXT
         else if e = ''.html'' then WEB else if e = ''.htm'' then WEB else UNKNOWN)"
    by (simp add: detect_document_type_str type_mapping_def Let_def)
next
  assume "py_lower (PurePath_suffix p) = py_lower (PurePath_suffix q)"
  then show "detect_document_type (PStr p) = detect_document_type (PStr q)"
    by (simp add: detect_document_type_str)
next
  assume "PurePath_suffix p = []"
  then show "detect_document_type (PStr p) = UNKNOWN"
    by (simp add: detect_document_type_str type_mapping_def py_lower_def)
next
  assume "detect_document_type_try v = Inl err"
  then show "detect_document_type v = UNKNOWN"
    by (simp add: detect_document_type_def)
next
  show "DocumentChunk_detect_document_type c
     = c\<lparr>DocumentChunk.document_type := detect_document_type (PStr (source_file c))\<rparr>"
    by (simp add: DocumentChunk_detect_document_type_def)
qed

theorem detect_document_type_by_extension_witness:
  "py_lower (PurePath_suffix ''docs/Guide.PDF'') = py_lower (PurePath_suffix ''guide.pdf'') \<and>
   detect_document_type (PStr ''docs/Guide.PDF'') = PDF \<and>
   detect_document_type (PStr ''guide.pdf'') = PDF \<and>
   PurePath_suffix ''README'' = [] \<and>
   detect_document_type (PStr ''README'') = UNKNOWN \<and>
   detect_document_type_try (PInt 5) = Inl TypeError \<and>
   detect_document_type (PInt 5) = UNKNOWN"
proof -
  have a: "py_lower (PurePath_suffix ''docs/Guide.PDF'') = ''.pdf''"
    by code_simp
  have b: "py_lower (PurePath_suffix ''guide.pdf'') = ''.pdf''"
    by code_simp
  have c: "PurePath_suffix ''README'' = []"
    by code_simp
  have d: "detect_document_type_try (PInt 5) = Inl TypeError"
    by (simp add: detect_document_type_try_def Path_def and_then_def)
  note t1 = detect_document_type_by_extension [of "''docs/Guide.PDF''" "''guide.pdf''" "PInt 5" TypeError]
  note t2 = detect_document_type_by_extension [of "''guide.pdf''" "''guide.pdf''" "PInt 5" TypeError]
  note t3 = detect_document_type_by_extension [of "''README''" "''README''" "PInt 5" TypeError]
  from t1 a have e: "detect_document_type (PStr ''docs/Guide.PDF'') = PDF"
    by (simp add: Let_def)
  from t2 b have f: "detect_document_type (PStr ''guide.pdf'') = PDF"
    by (simp add: Let_def)
  from t3 c have g: "detect_document_type (PStr ''README'') = UNKNOWN"
    by blast
  from t1 d have h: "detect_document_type (PInt 5) = UNKNOWN"
    by blast
  show ?thesis
    using a b c d e f g h by simp
qed

section \<open>C9: the failures of the decoders\<close>

lemma DocumentChunk_from_dict_errors:
  "map_of data ''document_type'' = Some (PStr s) \<Longrightarrow> map_of DocumentType_members s = None \<Longrightarrow>
     DocumentChunk_from_dict lib now data = Inl (ValueError (Not_a_valid ''DocumentType''))"
  "DocumentType_call (dict_get data ''document_type'' (PStr ''unknown'')) = Inr dt \<Longrightarrow>
   map_of data ''content_source'' = Some (PStr s) \<Longrightarrow> map_of ContentSource_members s = None \<Longrightarrow>
     DocumentChunk_from_dict lib now data = Inl (ValueError (Not_a_valid ''ContentSource''))"
  "DocumentType_call (dict_get data ''document_type'' (PStr ''unknown'')) = Inr dt \<Longrightarrow>
   ContentSource_call (dict_get data ''content_source'' (PStr ''local_document'')) = Inr cs \<Longrightarrow>
   map_of data ''created_at'' = Some (PStr s) \<Longrightarrow> lib_fromisoformat lib s = None \<Longrightarrow>
     DocumentChunk_from_dict lib now data = Inl (ValueError (Invalid_isoformat s))"
  by (simp_all add: DocumentChunk_from_dict_def and_then_def dict_get_def
      DocumentType_call_def ContentSource_call_def fromisoformat_def)

lemma DocumentChunk_from_dict_missing:
  assumes "DocumentType_call (dict_get data ''document_type'' (PStr ''unknown'')) = Inr dt"
    and "ContentSource_call (dict_get data ''content_source'' (PStr ''local_document'')) = Inr cs"
    and "fromisoformat lib (dict_get data ''created_at'' (PStr (isoformat now))) = Inr t"
  shows "map_of data ''content'' = None \<Longrightarrow>
           DocumentChunk_from_dict lib now data = Inl (KeyError ''content'')"
    and "map_of data ''content'' = Some v1 \<Longrightarrow> map_of data ''source_file'' = None \<Longrightarrow>
           DocumentChunk_from_dict lib now data = Inl (KeyError ''source_file'')"
    and "map_of data ''content'' = Some v1 \<Longrightarrow> map_of data ''source_file'' = Some v2 \<Longrightarrow>
         map_of data ''chunk_id'' = None \<Longrightarrow>
           DocumentChunk_from_dict lib now data = Inl (KeyError ''chunk_id'')"
  using assms
  by (simp_all add: DocumentChunk_from_dict_def and_then_def dict_item_def)

lemma SearchResult_from_dict_errors:
  "map_of data ''document_type'' = Some (PStr s) \<Longrightarrow> map_of DocumentType_members s = None \<Longrightarrow>
     SearchResult_from_dict lib now data = Inl (ValueError (Not_a_valid ''DocumentType''))"
  "DocumentType_call (dict_get data ''document_type'' (PStr ''unknown'')) = Inr dt \<Longrightarrow>
   map_of data ''content_source'' = Some (PStr s) \<Longrightarrow> map_of ContentSource_members s = None \<Longrightarrow>
     SearchResult_from_dict lib now data = Inl (ValueError (Not_a_valid ''ContentSource''))"
  "DocumentType_call (dict_get data ''document_type'' (PStr ''unknown'')) = Inr dt \<Longrightarrow>
   ContentSource_call (dict_get data ''content_source'' (PStr ''local_document'')) = Inr cs \<Longrightarrow>
   map_of data ''timestamp'' = Some (PStr s) \<Longrightarrow> lib_fromisoformat lib s = None \<Longrightarrow>
     SearchResult_from_dict lib now data = Inl (ValueError (Invalid_isoformat s))"
  by (simp_all add: SearchResult_from_dict_def and_then_def dict_get_def
      DocumentType_call_def ContentSource_call_def fromisoformat_def)

lemma ConversationMessage_from_dict_errors:
  "map_of data ''timestamp'' = Some (PStr s) \<Longrightarrow> lib_fromisoformat lib s = None \<Longrightarrow>
     ConversationMessage_from_dict lib now data = Inl (ValueError (Invalid_isoformat s))"
  "fromisoformat lib (dict_get data ''timestamp'' (PStr (isoformat now))) = Inr t \<Longrightarrow>
   map_of data ''role'' = None \<Longrightarrow>
     ConversationMessage_from_dict lib now data = Inl (KeyError ''role'')"
  "fromisoformat lib (dict_get data ''timestamp'' (PStr (isoformat now))) = Inr t \<Longrightarrow>
   map_of data ''role'' = Some v1 \<Longrightarrow> map_of data ''content'' = None \<Longrightarrow>
     ConversationMessage_from_dict lib now data = Inl (KeyError ''content'')"
  by (simp_all add: ConversationMessage_from_dict_def and_then_def dict_get_def dict_item_def
      fromisoformat_def)

lemma WebSource_from_dict_errors:
  "map_of data ''last_scraped'' = Some (PStr s) \<Longrightarrow> s \<noteq> [] \<Longrightarrow> lib_fromisoformat lib s = None \<Longrightarrow>
     WebSource_from_dict lib data = Inl (ValueError (Invalid_isoformat s))"
  "\<not> py_truthy (dict_get data ''last_scraped'' PNone) \<Longrightarrow> map_of data ''url'' = None \<Longrightarrow>
     WebSource_from_dict lib data = Inl (KeyError ''url'')"
  "py_truthy (dict_get data ''last_scraped'' PNone) \<Longrightarrow>
   fromisoformat lib (dict_get data ''last_scraped'' PNone) = Inr t \<Longrightarrow> map_of data ''url'' = None \<Longrightarrow>
     WebSource_from_dict lib data = Inl (KeyError ''url'')"
  by (auto simp add: WebSource_from_dict_def and_then_def dict_get_def dict_item_def
      fromisoformat_def split: option.splits)

lemma WebSource_from_dict_falsy:
  assumes "\<not> py_truthy (dict_get data ''last_scraped'' PNone)"
    and "WebSource_from_dict lib data = Inr w"
  shows "last_scraped w = None"
  using assms
  by (simp add: WebSource_from_dict_def and_then_def split: sum.splits) force

lemma fromisoformat_unparsable:
  "map_of data k = Some (PStr s) \<Longrightarrow> lib_fromisoformat lib s = None \<Longrightarrow>
     fromisoformat lib (dict_get data k d) = Inl (ValueError (Invalid_isoformat s))"
  by (simp add: dict_get_def fromisoformat_def)

lemma ConversationSession_from_dict_errors:
  "py_iter (dict_get data ''messages'' (PList [])) = Inr items \<Longrightarrow>
   messages_from_items lib now items = Inl e \<Longrightarrow>
     ConversationSession_from_dict lib now data = Inl e"
  "py_iter (dict_get data ''messages'' (PList [])) = Inr items \<Longrightarrow>
   messages_from_items lib now items = Inr msgs \<Longrightarrow>
   map_of data ''created_at'' = Some (PStr s) \<Longrightarrow> lib_fromisoformat lib s = None \<Longrightarrow>
     ConversationSession_from_dict lib now data = Inl (ValueError (Invalid_isoformat s))"
  "py_iter (dict_get data ''messages'' (PList [])) = Inr items \<Longrightarrow>
   messages_from_items lib now items = Inr msgs \<Longrightarrow>
   fromisoformat lib (dict_get data ''created_at'' (PStr (isoformat now))) = Inr t1 \<Longrightarrow>
   map_of data ''last_activity'' = Some (PStr s) \<Longrightarrow> lib_fromisoformat lib s = None \<Longrightarrow>
     ConversationSession_from_dict lib now data = Inl (ValueError (Invalid_isoformat s))"
  "py_iter (dict_get data ''messages'' (PList [])) = Inr items \<Longrightarrow>
   messages_from_items lib now items = Inr msgs \<Longrightarrow>
   fromisoformat lib (dict_get data ''created_at'' (PStr (isoformat now))) = Inr t1 \<Longrightarrow>
   fromisoformat lib (dict_get data ''last_activity'' (PStr (isoformat now))) = Inr t2 \<Longrightarrow>
   map_of data ''session_id'' = None \<Longrightarrow>
     ConversationSession_from_dict lib now data = Inl (KeyError ''session_id'')"
  by (simp_all add: ConversationSession_from_dict_def and_then_def dict_item_def
      fromisoformat_unparsable)

lemma example_lib_Nil: "lib_fromisoformat example_lib [] = None"
  by (simp add: example_lib_def isoformat_reader_def read_date_def eval_nat_numeral)

lemma unscraped_decoded:
  "WebSource_from_dict example_lib unscraped_record =
     Inr \<lparr>url = ''https://docs.example.com/x'', title = [], WebSource.content = [],
          last_scraped = None, scrape_frequency = ''monthly'', status = ''pending'',
          content_type = ''unknown'', quality_score = Finite 0, WebSource.metadata = [],
          error_message = [], chunk_count = 0\<rparr>"
  by (simp add: WebSource_from_dict_def unscraped_record_def dict_get_def dict_item_def
      and_then_def as_str_def as_float_def as_dict_def as_int_def)

lemma bad_enum_decoded:
  "DocumentChunk_from_dict example_lib example_time bad_enum_record
     = Inl (ValueError (Not_a_valid ''DocumentType''))"
  by (simp add: DocumentChunk_from_dict_def bad_enum_record_def dict_get_def and_then_def
      DocumentType_call_def DocumentType_members_def)

text \<open>
  Claim C9 says that every decode of a dictionary without a required key fails with a
  \<^verbatim>\<open>KeyError\<close> naming it, that every enum string that is no member gives a
  \<^verbatim>\<open>ValueError\<close>, and that every timestamp string that does not parse gives a parse
  error. \<^verbatim>\<open>WebSource.from_dict\<close> parses \<^verbatim>\<open>last_scraped\<close> only when it is truthy: the
  empty string does not parse, and the decode succeeds with a source that was never
  scraped. \<^verbatim>\<open>DocumentChunk.from_dict\<close> calls the enums before it reads \<^verbatim>\<open>content\<close>: a
  dictionary without \<^verbatim>\<open>content\<close> and with the document type \<^verbatim>\<open>bogus\<close> fails with
  \<^verbatim>\<open>ValueError\<close>, not with \<^verbatim>\<open>KeyError\<close>.
\<close>

theorem from_dict_errors_counterexample:
  "map_of unscraped_record ''last_scraped'' = Some (PStr []) \<and>
   lib_fromisoformat example_lib [] = None \<and>
   WebSource_from_dict example_lib unscraped_record =
     Inr \<lparr>url = ''https://docs.example.com/x'', title = [], WebSource.content = [],
          last_scraped = None, scrape_frequency = ''monthly'', status = ''pending'',
          content_type = ''unknown'', quality_score = Finite 0, WebSource.metadata = [],
          error_message = [], chunk_count = 0\<rparr> \<and>
   map_of bad_enum_record ''content'' = None \<and>
   DocumentChunk_from_dict example_lib example_time bad_enum_record
     = Inl (ValueError (Not_a_valid ''DocumentType''))"
proof (intro conjI)
  show "map_of unscraped_record ''last_scraped'' = Some (PStr [])"
    by (simp add: unscraped_record_def)
  show "map_of bad_enum_record ''content'' = None"
    by (simp add: bad_enum_record_def)
qed (rule example_lib_Nil unscraped_decoded bad_enum_decoded)+

text \<open>
  Claim C9, amended. Each decoder evaluates its entries in the order of the source and
  fails at the first defect.
  \<^item> A \<^verbatim>\<open>document_type\<close> string that is no member fails the chunk and the search
    result decoders with \<^verbatim>\<open>ValueError\<close>; so does a \<^verbatim>\<open>content_source\<close> string that is no
    member, when the document type is a member.
  \<^item> A timestamp string that \<^verbatim>\<open>fromisoformat\<close> rejects fails the decode with
    \<^verbatim>\<open>ValueError\<close> when the entries evaluated before it are well formed (for a chunk
    and a search result the two enums; for a session the messages, and \<^verbatim>\<open>created_at\<close>
    before \<^verbatim>\<open>last_activity\<close>; for a message nothing); for \<^verbatim>\<open>last_scraped\<close> of a web
    source when the string is not empty. A \<^verbatim>\<open>last_scraped\<close> that is not truthy is read
    as never scraped.
  \<^item> An absent required key fails the decode with \<^verbatim>\<open>KeyError\<close> naming the first absent
    one (\<^verbatim>\<open>content\<close>, \<^verbatim>\<open>source_file\<close>, \<^verbatim>\<open>chunk_id\<close>; \<^verbatim>\<open>role\<close>, \<^verbatim>\<open>content\<close>;
    \<^verbatim>\<open>url\<close>; \<^verbatim>\<open>session_id\<close>) when the enum and timestamp entries evaluated before it
    are well formed; a session whose messages fail to decode fails with their error.
\<close>

theorem from_dict_first_defect:
  "(map_of data ''document_type'' = Some (PStr s) \<and> map_of DocumentType_members s = None \<longrightarrow>
      DocumentChunk_from_dict lib now data = Inl (ValueError (Not_a_valid ''DocumentType'')) \<and>
      SearchResult_from_dict lib now data = Inl (ValueError (Not_a_valid ''DocumentType''))) \<and>
   (DocumentType_call (dict_get data ''document_type'' (PStr ''unknown'')) = Inr dt \<and>
    map_of data ''content_source'' = Some (PStr s) \<and> map_of ContentSource_members s = None \<longrightarrow>
      DocumentChunk_from_dict lib now data = Inl (ValueError (Not_a_valid ''ContentSource'')) \<and>
      SearchResult_from_dict lib now data = Inl (ValueError (Not_a_valid ''ContentSource''))) \<and>
   (DocumentType_call (dict_get data ''document_type'' (PStr ''unknown'')) = Inr dt \<and>
    ContentSource_call (dict_get data ''content_source'' (PStr ''local_document'')) = Inr cs \<and>
    map_of data ''created_at'' = Some (PStr s) \<and> lib_fromisoformat lib s = None \<longrightarrow>
      DocumentChunk_from_dict lib now data = Inl (ValueError (Invalid_isoformat s))) \<and>
   (DocumentType_call (dict_get data ''document_type'' (PStr ''unknown'')) = Inr dt \<and>
    ContentSource_call (dict_get data ''content_source'' (PStr ''local_document'')) = Inr cs \<and>
    map_of data ''timestamp'' = Some (PStr s) \<and> lib_fromisoformat lib s = None \<longrightarrow>
      SearchResult_from_dict lib now data = Inl (ValueError (Invalid_isoformat s))) \<and>
   (DocumentType_call (dict_get data ''document_type'' (PStr ''unknown'')) = Inr dt \<and>
    ContentSource_call (dict_get data ''content_source'' (PStr ''local_document'')) = Inr cs \<and>
    fromisoformat lib (dict_get data ''created_at'' (PStr (isoformat now))) = Inr t \<longrightarrow>
      (map_of data ''content'' = None \<longrightarrow>
         DocumentChunk_from_dict lib now data = Inl (KeyError ''content'')) \<and>
      (map_of data ''content'' = Some v1 \<and> map_of data ''source_file'' = None \<longrightarrow>
         DocumentChunk_from_dict lib now data = Inl (KeyError ''source_file'')) \<and>
      (map_of data ''content'' = Some v1 \<and> map_of data ''source_file'' = Some v2 \<and>
       map_of data ''chunk_id'' = None \<longrightarrow>
         DocumentChunk_from_dict lib now data = Inl (KeyError ''chunk_id''))) \<and>
   (map_of data ''timestamp'' = Some (PStr s) \<and> lib_fromisoformat lib s = None \<longrightarrow>
      ConversationMessage_from_dict lib now data = Inl (ValueError (Invalid_isoformat s))) \<and>
   (fromisoformat lib (dict_get data ''timestamp'' (PStr (isoformat now))) = Inr t \<longrightarrow>
      (map_of data ''role'' = None \<longrightarrow>
         ConversationMessage_from_dict lib now data = Inl (KeyError ''role'')) \<and>
      (map_of data ''role'' = Some v1 \<and> map_of data ''content'' = None \<longrightarrow>
         ConversationMessage_from_dict lib now data = Inl (KeyError ''content''))) \<and>
   (map_of data ''last_scraped'' = Some (PStr s) \<and> s \<noteq> [] \<and> lib_fromisoformat lib s = None \<longrightarrow>
      WebSource_from_dict lib data = Inl (ValueError (Invalid_isoformat s))) \<and>
   (\<not> py_truthy (dict_get data ''last_scraped'' PNone) \<longrightarrow>
      (map_of data ''url'' = None \<longrightarrow> WebSource_from_dict lib data = Inl (KeyError ''url'')) \<and>
      (WebSource_from_dict lib data = Inr w \<longrightarrow> last_scraped w = None)) \<and>
   (py_truthy (dict_get data ''last_scraped'' PNone) \<and>
    fromisoformat lib (dict_get data ''last_scraped'' PNone) = Inr t \<and> map_of data ''url'' = None \<longrightarrow>
      WebSource_from_dict lib data = Inl (KeyError ''url'')) \<and>
   (py_iter (dict_get data ''messages'' (PList [])) = Inr items \<longrightarrow>
      (messages_from_items lib now items = Inl e \<longrightarrow>
         ConversationSession_from_dict lib now data = Inl e) \<and>
      (messages_from_items lib now items = Inr msgs \<and>
       map_of data ''created_at'' = Some (PStr s) \<and> lib_fromisoformat lib s = None \<longrightarrow>
         ConversationSession_from_dict lib now data = Inl (ValueError (Invalid_isoformat s))) \<and>
      (messages_from_items lib now items = Inr msgs \<and>
       fromisoformat lib (dict_get data ''created_at'' (PStr (isoformat now))) = Inr t1 \<and>
       map_of data ''last_activity'' = Some (PStr s) \<and> lib_fromisoformat lib s = None \<longrightarrow>
         ConversationSession_from_dict lib now data = Inl (ValueError (Invalid_isoformat s))) \<and>
      (messages_from_items lib now items = Inr msgs \<and>
       fromisoformat lib (dict_get data ''created_at'' (PStr (isoformat now))) = Inr t1 \<and>
       fromisoformat lib (dict_get data ''last_activity'' (PStr (isoformat now))) = Inr t2 \<and>
       map_of data ''session_id'' = None \<longrightarrow>
         ConversationSession_from_dict lib now data = Inl (KeyError ''session_id'')))"
  by (intro conjI impI; (elim conjE)?;
      blast intro: DocumentChunk_from_dict_errors DocumentChunk_from_dict_missing
        SearchResult_from_dict_errors ConversationMessage_from_dict_errors
        WebSource_from_dict_errors WebSource_from_dict_falsy
        ConversationSession_from_dict_errors)

theorem from_dict_first_defect_witness:
  "DocumentType_call (dict_get missing_content_record ''document_type'' (PStr ''unknown''))
     = Inr UNKNOWN \<and>
   ContentSource_call (dict_get missing_content_record ''content_source'' (PStr ''local_document''))
     = Inr LOCAL_DOCUMENT \<and>
   fromisoformat example_lib (dict_get missing_content_record ''created_at'' (PStr (isoformat example_time)))
     = Inr example_time \<and>
   map_of missing_content_record ''content'' = None \<and>
   DocumentChunk_from_dict example_lib example_time missing_content_record = Inl (KeyError ''content'') \<and>
   map_of bad_enum_record ''document_type'' = Some (PStr ''bogus'') \<and>
   map_of DocumentType_members ''bogus'' = None \<and>
   DocumentChunk_from_dict example_lib example_time bad_enum_record
     = Inl (ValueError (Not_a_valid ''DocumentType'')) \<and>
   map_of bad_timestamp_record ''timestamp'' = Some (PStr ''yesterday'') \<and>
   lib_fromisoformat example_lib ''yesterday'' = None \<and>
   ConversationMessage_from_dict example_lib example_time bad_timestamp_record
     = Inl (ValueError (Invalid_isoformat ''yesterday'')) \<and>
   \<not> py_truthy (dict_get [] ''last_scraped'' PNone) \<and>
   map_of ([] :: pydict) ''url'' = None \<and>
   WebSource_from_dict example_lib [] = Inl (KeyError ''url'') \<and>
   py_iter (dict_get [(''messages'', PList [])] ''messages'' (PList [])) = Inr [] \<and>
   messages_from_items example_lib example_time [] = Inr [] \<and>
   map_of [(''messages'', PList [])] ''session_id'' = None \<and>
   ConversationSession_from_dict example_lib example_time [(''messages'', PList [])]
     = Inl (KeyError ''session_id'')"
proof -
  have iso: "fromisoformat example_lib (PStr (isoformat example_time)) = Inr example_time"
    by (simp add: fromisoformat_inverse example_lib_inverse valid_example_time)
  have a1: "DocumentType_call (dict_get missing_content_record ''document_type'' (PStr ''unknown''))
     = Inr UNKNOWN"
    by (simp add: missing_content_record_def dict_get_def DocumentType_call_def
        DocumentType_members_def)
  have a2: "ContentSource_call (dict_get missing_content_record ''content_source''
      (PStr ''local_document'')) = Inr LOCAL_DOCUMENT"
    by (simp add: missing_content_record_def dict_get_def ContentSource_call_def
        ContentSource_members_def)
  have a3: "fromisoformat example_lib (dict_get missing_content_record ''created_at''
      (PStr (isoformat example_time))) = Inr example_time"
    by (simp add: missing_content_record_def dict_get_def iso)
  have a4: "map_of missing_content_record ''content'' = None"
    by (simp add: missing_content_record_def)
  have a: "DocumentChunk_from_dict example_lib example_time missing_content_record = Inl (KeyError ''content'')"
    using a1 a2 a3 a4
      from_dict_first_defect [where data = missing_content_record and lib = example_lib and now = example_time
        and dt = UNKNOWN and cs = LOCAL_DOCUMENT and t = example_time,
        THEN conjunct2, THEN conjunct2, THEN conjunct2, THEN conjunct2, THEN conjunct1]
    by blast
  have b1: "map_of bad_enum_record ''document_type'' = Some (PStr ''bogus'')"
    by (simp add: bad_enum_record_def)
  have b2: "map_of DocumentType_members ''bogus'' = None"
    by (simp add: DocumentType_members_def)
  have b: "DocumentChunk_from_dict example_lib example_time bad_enum_record
     = Inl (ValueError (Not_a_valid ''DocumentType''))"
    using b1 b2
      from_dict_first_defect [where data = bad_enum_record and lib = example_lib and now = example_time
        and s = "''bogus''", THEN conjunct1]
    by blast
  have c1: "map_of bad_timestamp_record ''timestamp'' = Some (PStr ''yesterday'')"
    by (simp add: bad_timestamp_record_def)
  have c2: "lib_fromisoformat example_lib ''yesterday'' = None"
    by (simp add: example_lib_def isoformat_reader_def read_date_def eval_nat_numeral digit_val_def)
  have c: "ConversationMessage_from_dict example_lib example_time bad_timestamp_record
     = Inl (ValueError (Invalid_isoformat ''yesterday''))"
    using c1 c2
      from_dict_first_defect [where data = bad_timestamp_record and lib = example_lib and now = example_time
        and s = "''yesterday''", THEN conjunct2, THEN conjunct2, THEN conjunct2, THEN conjunct2, THEN conjunct2, THEN conjunct1]
    by blast
  have d1: "\<not> py_truthy (dict_get [] ''last_scraped'' PNone)"
    by (simp add: dict_get_def)
  have d2: "map_of ([] :: pydict) ''url'' = None"
    by simp
  have d: "WebSource_from_dict example_lib [] = Inl (KeyError ''url'')"
    using d1 d2 from_dict_first_defect [where data = "[]" and lib = example_lib, THEN conjunct2, THEN conjunct2, THEN conjunct2, THEN conjunct2, THEN conjunct2, THEN conjunct2, THEN conjunct2, THEN conjunct2, THEN conjunct1]
    by blast
  have e1: "py_iter (dict_get [(''messages'', PList [])] ''messages'' (PList [])) = Inr []"
    by (simp add: dict_get_def py_iter_def)
  have e2: "messages_from_items example_lib example_time [] = Inr []"
    by simp
  have e3: "fromisoformat example_lib (dict_get [(''messages'', PList [])] ''created_at''
      (PStr (isoformat example_time))) = Inr example_time"
    by (simp add: dict_get_def iso)
  have e4: "fromisoformat example_lib (dict_get [(''messages'', PList [])] ''last_activity''
      (PStr (isoformat example_time))) = Inr example_time"
    by (simp add: dict_get_def iso)
  have e5: "map_of [(''messages'', PList [])] ''session_id'' = None"
    by simp
  have e: "ConversationSession_from_dict example_lib example_time [(''messages'', PList [])]
     = Inl (KeyError ''session_id'')"
    using e1 e2 e3 e4 e5
      from_dict_first_defect [where data = "[(''messages'', PList [])]" and lib = example_lib and now = example_time
        and items = "[]" and msgs = "[]" and ?t1.0 = example_time and ?t2.0 = example_time,
        THEN conjunct2, THEN conjunct2, THEN conjunct2, THEN conjunct2, THEN conjunct2, THEN conjunct2, THEN conjunct2, THEN conjunct2, THEN conjunct2, THEN conjunct2]
    by blast
  show ?thesis
    by (intro conjI a1 a2 a3 a4 a b1 b2 b c1 c2 c d1 d2 d e1 e2 e5 e)
qed

section \<open>C10: a recognized extension and the unknown type\<close>

lemma type_mapping_not_unknown: "map_of type_mapping e = Some t \<Longrightarrow> t \<noteq> UNKNOWN"
  by (auto simp add: type_mapping_def split: if_splits)

lemma recognized_suffix_source_file:
  assumes "map_of type_mapping (py_lower (PurePath_suffix f)) = Some t"
  shows "f \<noteq> []"
proof
  assume "f = []"
  then have "py_lower (PurePath_suffix f) = []"
    by (simp add: PurePath_suffix_Nil py_lower_def)
  with assms show False
    by (simp add: type_mapping_def)
qed

lemma DocumentChunk_post_init_source_file:
  "source_file (DocumentChunk_post_init c) = source_file c"
  by (simp add: DocumentChunk_post_init_def DocumentChunk_detect_document_type_def Let_def)

lemma DocumentChunk_post_init_document_type:
  assumes "map_of type_mapping (py_lower (PurePath_suffix (source_file c))) = Some t"
  shows "DocumentChunk.document_type (DocumentChunk_post_init c)
         = (if DocumentChunk.document_type c = UNKNOWN then t else DocumentChunk.document_type c)"
  using assms recognized_suffix_source_file [OF assms]
  by (simp add: DocumentChunk_post_init_def DocumentChunk_detect_document_type_def Let_def
      detect_document_type_str)

lemma DocumentChunk_from_dict_Inr:
  assumes "DocumentChunk_from_dict lib now data = Inr c'"
  shows "\<exists>c0. c' = DocumentChunk_post_init c0 \<and>
           DocumentType_call (dict_get data ''document_type'' (PStr ''unknown''))
             = Inr (DocumentChunk.document_type c0)"
proof -
  obtain dt where dt: "DocumentType_call (dict_get data ''document_type'' (PStr ''unknown'')) = Inr dt"
    using assms by (cases "DocumentType_call (dict_get data ''document_type'' (PStr ''unknown''))")
      (simp_all add: DocumentChunk_from_dict_def and_then_def)
  show ?thesis
    using assms unfolding DocumentChunk_from_dict_def and_then_def
    by (simp add: dt split: sum.splits) force
qed

lemma dotfile_ends: "str_endswith (py_lower (source_file dotfile_chunk)) ''.pdf''"
  by (simp add: str_endswith_def dotfile_chunk_def DocumentChunk_defaults_def py_lower_def
      py_lower_char_def)

lemma dotfile_suffix: "PurePath_suffix ''.pdf'' = []"
  by (simp add: PurePath_suffix_def PurePath_name_def str_rfind_def)

lemma dotfile_constructed:
  "DocumentChunk.document_type (DocumentChunk_post_init dotfile_chunk) = UNKNOWN"
  by (simp add: dotfile_chunk_def DocumentChunk_defaults_def DocumentChunk_post_init_def
      DocumentChunk_detect_document_type_def detect_document_type_str dotfile_suffix
      py_lower_def type_mapping_def)

lemma dotfile_decoded:
  "DocumentChunk_from_dict example_lib example_time dotfile_record
     = Inr (DocumentChunk_post_init dotfile_chunk)"
  by (simp add: DocumentChunk_from_dict_def dotfile_record_def dict_get_def dict_item_def
      and_then_def DocumentType_call_def DocumentType_members_def ContentSource_call_def
      ContentSource_members_def fromisoformat_inverse example_lib_inverse valid_example_time as_str_def
      as_int_def as_dict_def as_optional_float_list_def dotfile_chunk_def
      DocumentChunk_defaults_def)

text \<open>
  Claim C10 says that no chunk comes out of the constructor or of \<^verbatim>\<open>from_dict\<close> with the
  type unknown while its \<^verbatim>\<open>source_file\<close> ends in \<^verbatim>\<open>.pdf\<close>, \<^verbatim>\<open>.docx\<close>, \<^verbatim>\<open>.md\<close>,
  \<^verbatim>\<open>.txt\<close>, \<^verbatim>\<open>.html\<close> or \<^verbatim>\<open>.htm\<close>. The detection reads \<^verbatim>\<open>Path(source_file).suffix\<close>,
  and a name that starts with its only dot has no suffix: the file \<^verbatim>\<open>.pdf\<close> ends in
  \<^verbatim>\<open>.pdf\<close>, and the chunk constructed for it, and the one decoded for it, are unknown.
\<close>

theorem dotfile_counterexample:
  "str_endswith (py_lower (source_file dotfile_chunk)) ''.pdf'' \<and>
   DocumentChunk.document_type (DocumentChunk_post_init dotfile_chunk) = UNKNOWN \<and>
   DocumentChunk_from_dict example_lib example_time dotfile_record
     = Inr (DocumentChunk_post_init dotfile_chunk)"
  by (intro conjI dotfile_ends dotfile_constructed dotfile_decoded)

text \<open>
  Claim C10, amended. When the suffix of \<^verbatim>\<open>source_file\<close> (as \<^verbatim>\<open>Path.suffix\<close> gives it),
  in lower case, is in the table, a constructed chunk is never unknown, and it has the
  mapped type whenever the caller passed unknown or nothing; the same holds for a chunk
  that \<^verbatim>\<open>from_dict\<close> returns, which has the mapped type whenever the dictionary holds
  \<^verbatim>\<open>unknown\<close> or no \<^verbatim>\<open>document_type\<close>.
\<close>

theorem recognized_suffix_never_unknown:
  "(map_of type_mapping (py_lower (PurePath_suffix (source_file c))) = Some t \<longrightarrow>
      DocumentChunk.document_type (DocumentChunk_post_init c) \<noteq> UNKNOWN \<and>
      (DocumentChunk.document_type c = UNKNOWN \<longrightarrow>
         DocumentChunk.document_type (DocumentChunk_post_init c) = t)) \<and>
   (DocumentChunk_from_dict lib now data = Inr c' \<and>
    map_of type_mapping (py_lower (PurePath_suffix (source_file c'))) = Some t' \<longrightarrow>
      DocumentChunk.document_type c' \<noteq> UNKNOWN \<and>
      (dict_get data ''document_type'' (PStr ''unknown'') = PStr ''unknown'' \<longrightarrow>
         DocumentChunk.document_type c' = t'))"
proof (intro conjI impI)
  assume a: "map_of type_mapping (py_lower (PurePath_suffix (source_file c))) = Some t"
  show "DocumentChunk.document_type (DocumentChunk_post_init c) \<noteq> UNKNOWN"
    using DocumentChunk_post_init_document_type [OF a] type_mapping_not_unknown [OF a]
    by (simp split: if_splits)
  assume "DocumentChunk.document_type c = UNKNOWN"
  then show "DocumentChunk.document_type (DocumentChunk_post_init c) = t"
    using DocumentChunk_post_init_document_type [OF a] by simp
next
  assume b: "DocumentChunk_from_dict lib now data = Inr c' \<and>
    map_of type_mapping (py_lower (PurePath_suffix (source_file c'))) = Some t'"
  then obtain c0 where c0: "c' = DocumentChunk_post_init c0"
    and dt: "DocumentType_call (dict_get data ''document_type'' (PStr ''unknown''))
             = Inr (DocumentChunk.document_type c0)"
    using DocumentChunk_from_dict_Inr by blast
  from b c0 have a: "map_of type_mapping (py_lower (PurePath_suffix (source_file c0))) = Some t'"
    by (simp add: DocumentChunk_post_init_source_file)
  show "DocumentChunk.document_type c' \<noteq> UNKNOWN"
    unfolding c0
    using DocumentChunk_post_init_document_type [OF a] type_mapping_not_unknown [OF a]
    by (simp split: if_splits)
  assume "dict_get data ''document_type'' (PStr ''unknown'') = PStr ''unknown''"
  with dt have "DocumentChunk.document_type c0 = UNKNOWN"
    by (simp add: DocumentType_call_def DocumentType_members_def)
  then show "DocumentChunk.document_type c' = t'"
    unfolding c0 using DocumentChunk_post_init_document_type [OF a] by simp
qed

theorem recognized_suffix_never_unknown_witness:
  "map_of type_mapping (py_lower (PurePath_suffix (source_file example_chunk))) = Some PDF \<and>
   DocumentChunk.document_type example_chunk = UNKNOWN \<and>
   DocumentChunk.document_type (DocumentChunk_post_init example_chunk) = PDF \<and>
   DocumentChunk_from_dict example_lib example_time example_record
     = Inr (DocumentChunk_post_init (DocumentChunk_defaults example_time ''Hello world''
              ''docs/Guide.PDF'' ''c1'')) \<and>
   dict_get example_record ''document_type'' (PStr ''unknown'') = PStr ''unknown'' \<and>
   DocumentChunk.document_type (DocumentChunk_post_init (DocumentChunk_defaults example_time
      ''Hello world'' ''docs/Guide.PDF'' ''c1'')) = PDF"
proof -
  let ?c = "DocumentChunk_post_init (DocumentChunk_defaults example_time ''Hello world''
              ''docs/Guide.PDF'' ''c1'')"
  have suffix: "PurePath_suffix ''docs/Guide.PDF'' = ''.PDF''"
    by (simp add: PurePath_suffix_def PurePath_name_def str_rfind_def)
  have lower: "py_lower ''.PDF'' = ''.pdf''"
    by code_simp
  have a: "map_of type_mapping (py_lower (PurePath_suffix (source_file example_chunk))) = Some PDF"
    by (simp add: example_chunk_def suffix lower type_mapping_def)
  have b: "DocumentChunk.document_type example_chunk = UNKNOWN"
    by (simp add: example_chunk_def)
  have c: "DocumentChunk_from_dict example_lib example_time example_record = Inr ?c"
    by (simp add: DocumentChunk_from_dict_def example_record_def dict_get_def dict_item_def
        and_then_def DocumentType_call_def DocumentType_members_def ContentSource_call_def
        ContentSource_members_def fromisoformat_inverse example_lib_inverse valid_example_time as_str_def
        as_int_def as_dict_def as_optional_float_list_def DocumentChunk_defaults_def)
  have d: "map_of type_mapping (py_lower (PurePath_suffix (source_file ?c))) = Some PDF"
    by (simp add: DocumentChunk_post_init_source_file DocumentChunk_defaults_def suffix lower
        type_mapping_def)
  have e: "dict_get example_record ''document_type'' (PStr ''unknown'') = PStr ''unknown''"
    by (simp add: dict_get_def example_record_def)
  show ?thesis
    using a b c d e
      recognized_suffix_never_unknown [of example_chunk PDF example_lib example_time example_record ?c PDF]
    by simp
qed

end
